theory Spec2Isabelle
  imports Complex_Main
begin

section \<open>The gradient checks of xchainer (check\_backward.cc)\<close>

text \<open>
  The file under verification drives a reverse-mode differentiation engine: it isolates
  the inputs of a function under test, extracts analytic gradients with the backward
  engine, compares them with numerically estimated gradients, and asserts that no array
  body outlives a check.

  Arrays are reference-counted handles to array bodies; two handles are the same array
  exactly when they point to the same body (the source compares the
  \<^verbatim>\<open>shared_ptr\<close>s). The model is therefore a store of array bodies addressed by
  natural numbers, and a handle is the address of its body. Every function of the source
  becomes a function that takes the store and returns the store it leaves, together with
  either the value it returns or the failure it ends with.
\<close>

subsection \<open>Data model\<close>

type_synonym GraphId = string
type_synonym Array = nat
type_synonym Dtype = nat
type_synonym Shape = "nat list"

datatype DoubleBackpropOption = kDisable | kEnable

text \<open>
  An array node is the attachment of a body to one graph: \<open>next_op_node\<close> is the
  operation that produced the array (\<open>None\<close> for the null pointer of a leaf) and
  \<open>grad\<close> is the gradient slot.
\<close>

record ArrayNode =
  graph_id :: GraphId
  next_op_node :: "nat option"
  grad :: "Array option"

text \<open>
  An array body: \<open>data\<close> is the identity of the data buffer (views share it),
  \<open>nodes\<close> the attached array nodes in the order \<^verbatim>\<open>nodes()\<close> lists them.
\<close>

record ArrayBody =
  data :: nat
  shape :: Shape
  dtype :: Dtype
  nodes :: "ArrayNode list"

text \<open>
  The store: the array bodies by address, the next free address, the contents of the data
  buffers, whether a leak detection scope is open, and the graphs for which a
  \<^verbatim>\<open>ForceBackpropModeScope\<close> is open (innermost first).
\<close>

record store =
  bodies :: "nat \<Rightarrow> ArrayBody"
  next_body :: nat
  buffers :: "nat \<Rightarrow> real list"
  leak_scope :: bool
  forced_backprop :: "GraphId list"

subsection \<open>Failures\<close>

text \<open>
  One constructor of \<open>message\<close> for every \<^verbatim>\<open>throw\<close> of the file, carrying the
  values the source streams into the message text. The two failures that
  \<^verbatim>\<open>CheckDoubleBackpropOption\<close> can append to its report are \<open>toggle_failure\<close>s.
\<close>

datatype toggle_failure =
    ConnectedWhenDisabled nat nat GraphId
  | NotConnectedWhenEnabled nat nat GraphId

datatype message =
    InputsMustBeLeaf
  | IdenticalInputOutput nat nat
  | GradOutputsSize nat nat
  | ToggleReport "toggle_failure list"
  | InputGradientsCount
  | GradientShape nat nat Shape Shape
  | GradientDtype nat nat Dtype Dtype
  | NumericalError nat "nat list" GraphId real real
  | LeakReport string
  | GradGradInputsCount
  | InputNotDifferentiable nat nat GraphId
  | OutputGradNotDifferentiable nat nat GraphId
  | FirstOrderCount nat nat
  | FirstOrderMissing nat nat
  | FirstOrderNotDifferentiable nat nat GraphId
  | SecondOrderMissing "nat list" nat nat GraphId
  | DoubleNumericalError nat "nat list" GraphId real real

text \<open>
  The ways a call can end other than by returning: the two exception classes the file
  throws, a failed \<^verbatim>\<open>assert\<close> (the model is the build with assertions enabled), and
  an access the C++ standard leaves undefined.
\<close>

datatype failure =
    GradientCheckError message
  | XchainerError message
  | AssertionFailure string
  | UndefinedBehaviour string

type_synonym 'a comp = "store \<Rightarrow> (failure + 'a) \<times> store"

definition returnC :: "'a \<Rightarrow> 'a comp" where
  "returnC x = (\<lambda>s. (Inr x, s))"

definition throwC :: "failure \<Rightarrow> 'a comp" where
  "throwC e = (\<lambda>s. (Inl e, s))"

text \<open>Sequencing: a failure of the first computation ends the whole, in the store it left.\<close>

definition bindC :: "'a comp \<Rightarrow> ('a \<Rightarrow> 'b comp) \<Rightarrow> 'b comp" where
  "bindC m f = (\<lambda>s. case m s of (Inl e, s') \<Rightarrow> (Inl e, s') | (Inr x, s') \<Rightarrow> f x s')"

subsection \<open>The operations of the array class\<close>

text \<open>
  The array class is declared outside the file. Its operations are modelled on the store
  as the data model of the specification describes them.
\<close>

text \<open>
  Modelled from the spec: \<^verbatim>\<open>ArrayBody::HasArrayNode\<close> and
  \<^verbatim>\<open>ArrayBody::GetArrayNode\<close> are missing from the sources. A body has at most one
  node per graph; the node of a graph is looked up by the graph identifier.
\<close>

definition HasArrayNode :: "ArrayBody \<Rightarrow> GraphId \<Rightarrow> bool" where
  "HasArrayNode body g = list_ex (\<lambda>n. graph_id n = g) (nodes body)"

definition GetArrayNode :: "ArrayBody \<Rightarrow> GraphId \<Rightarrow> ArrayNode option" where
  "GetArrayNode body g = find (\<lambda>n. graph_id n = g) (nodes body)"

text \<open>
  Modelled from the spec: \<^verbatim>\<open>Array::IsGradRequired\<close> is missing from the sources. An
  array requires gradient under a graph identifier when its body carries a node of that
  graph.
\<close>

definition IsGradRequired :: "store \<Rightarrow> Array \<Rightarrow> GraphId \<Rightarrow> bool" where
  "IsGradRequired s a g = HasArrayNode (bodies s a) g"

text \<open>
  Modelled from the spec: \<^verbatim>\<open>Array::AsGradStopped(CopyKind::kView)\<close> is missing from the
  sources. It allocates a new body over the same data buffer, with the same shape and
  dtype and with no array node.
\<close>

definition AsGradStopped_kView :: "Array \<Rightarrow> store \<Rightarrow> Array \<times> store" where
  "AsGradStopped_kView a s =
     (let n = next_body s in
      (n, s\<lparr>bodies := (bodies s)(n := (bodies s a)\<lparr>nodes := []\<rparr>), next_body := Suc n\<rparr>))"

text \<open>
  Modelled from the spec: \<^verbatim>\<open>Array::RequireGrad\<close> is missing from the sources. It
  attaches a leaf node of the graph (no producing operation, empty gradient slot) to the
  body, and leaves a body that already has a node of the graph as it is.
\<close>

definition RequireGrad :: "Array \<Rightarrow> GraphId \<Rightarrow> store \<Rightarrow> store" where
  "RequireGrad a g s =
     (if HasArrayNode (bodies s a) g then s
      else s\<lparr>bodies := (bodies s)(a := (bodies s a)
             \<lparr>nodes := nodes (bodies s a) @ [\<lparr>graph_id = g, next_op_node = None, grad = None\<rparr>]\<rparr>)\<rparr>)"

fun set_node_grad :: "GraphId \<Rightarrow> Array option \<Rightarrow> ArrayNode list \<Rightarrow> ArrayNode list" where
  "set_node_grad g v [] = []"
| "set_node_grad g v (n # ns) =
     (if graph_id n = g then n\<lparr>grad := v\<rparr> # ns else n # set_node_grad g v ns)"

text \<open>
  Modelled from the spec: \<^verbatim>\<open>SetGrad\<close>, \<^verbatim>\<open>ClearGrad\<close> and \<^verbatim>\<open>GetGrad\<close> are
  missing from the sources. They write, empty and read the gradient slot of the array's
  node of the graph.
\<close>

definition SetGrad :: "Array \<Rightarrow> Array \<Rightarrow> GraphId \<Rightarrow> store \<Rightarrow> store" where
  "SetGrad a gr g s =
     s\<lparr>bodies := (bodies s)(a := (bodies s a)\<lparr>nodes := set_node_grad g (Some gr) (nodes (bodies s a))\<rparr>)\<rparr>"

definition ClearGrad :: "Array \<Rightarrow> GraphId \<Rightarrow> store \<Rightarrow> store" where
  "ClearGrad a g s =
     s\<lparr>bodies := (bodies s)(a := (bodies s a)\<lparr>nodes := set_node_grad g None (nodes (bodies s a))\<rparr>)\<rparr>"

definition GetGrad :: "store \<Rightarrow> Array \<Rightarrow> GraphId \<Rightarrow> Array option" where
  "GetGrad s a g = (case GetArrayNode (bodies s a) g of None \<Rightarrow> None | Some n \<Rightarrow> grad n)"

subsection \<open>Graph isolation\<close>

text \<open>
  \<^verbatim>\<open>DisconnectInputArrays\<close>, lines 26 to 37. For one input: a gradient-stopped view,
  then \<^verbatim>\<open>RequireGrad\<close> on the view for every node of the input's body.
\<close>

definition disconnect_input :: "Array \<Rightarrow> store \<Rightarrow> Array \<times> store" where
  "disconnect_input input s =
     (let (a, s1) = AsGradStopped_kView input s
      in (a, fold (\<lambda>arr_node. RequireGrad a (graph_id arr_node)) (nodes (bodies s1 input)) s1))"

fun DisconnectInputArrays :: "Array list \<Rightarrow> store \<Rightarrow> Array list \<times> store" where
  "DisconnectInputArrays [] s = ([], s)"
| "DisconnectInputArrays (input # inputs) s =
     (let (a, s1) = disconnect_input input s;
          (inputs_view, s2) = DisconnectInputArrays inputs s1
      in (a # inputs_view, s2))"

subsection \<open>Collaborators\<close>

text \<open>
  What the file calls and does not define is a parameter of the model: the backward
  engine, the elementwise product of arrays, the numerical gradient estimator, the
  verdict of the leak tracker (whether every recorded body is freed, and its report),
  and the default graph of an array's context. Each of the first three may change the
  store and may fail. A forward function is a value of the same kind. The last field is
  a choice of the compiler: which of the two isolations of line 464, whose order C++
  leaves unspecified, is evaluated first.
\<close>

record env =
  Backward :: "Array list \<Rightarrow> GraphId \<Rightarrow> DoubleBackpropOption \<Rightarrow> unit comp"
  Multiply :: "Array \<Rightarrow> Array \<Rightarrow> Array comp"
  CalculateNumericalGradient ::
    "(Array list \<Rightarrow> Array list comp) \<Rightarrow> Array list \<Rightarrow> Array list \<Rightarrow> Array list \<Rightarrow> Array list comp"
  IsAllArrayBodiesFreed :: "store \<Rightarrow> bool \<times> string"
  default_graph_id :: "store \<Rightarrow> Array \<Rightarrow> GraphId"
  isolates_inputs_first :: bool

definition liftC :: "(store \<Rightarrow> 'a \<times> store) \<Rightarrow> 'a comp" where
  "liftC m = (\<lambda>s. case m s of (x, s') \<Rightarrow> (Inr x, s'))"

definition getC :: "(store \<Rightarrow> 'a) \<Rightarrow> 'a comp" where
  "getC f = (\<lambda>s. (Inr (f s), s))"

text \<open>
  \<^verbatim>\<open>internal::GetArrayGraphId\<close> is missing from the sources. From its call with the
  first input and the optional identifier: the supplied identifier when there is one,
  and otherwise the graph that the parameter \<open>default_graph_id\<close> derives from the array.
\<close>

definition GetArrayGraphId :: "env \<Rightarrow> store \<Rightarrow> Array \<Rightarrow> GraphId option \<Rightarrow> GraphId" where
  "GetArrayGraphId E s a opt_graph_id =
     (case opt_graph_id of Some g \<Rightarrow> g | None \<Rightarrow> default_graph_id E s a)"

text \<open>
  Modelled from the spec: \<^verbatim>\<open>AllClose\<close> is missing from the sources. Two arrays are
  close when \<open>\<bar>a - b\<bar> \<le> atol + rtol * \<bar>b\<bar>\<close> holds for every pair of elements; the
  elements and the tolerances are real numbers in the model.
\<close>

definition AllClose :: "store \<Rightarrow> Array \<Rightarrow> Array \<Rightarrow> real \<Rightarrow> real \<Rightarrow> bool" where
  "AllClose s a b atol rtol =
     list_all2 (\<lambda>x y. \<bar>x - y\<bar> \<le> atol + rtol * \<bar>y\<bar>)
       (buffers s (data (bodies s a))) (buffers s (data (bodies s b)))"

subsection \<open>Backward gradient extraction\<close>

text \<open>Lines 45 to 50: every input must be a leaf of the graph.\<close>

definition is_non_leaf :: "store \<Rightarrow> GraphId \<Rightarrow> Array \<Rightarrow> bool" where
  "is_non_leaf s g input =
     (HasArrayNode (bodies s input) g \<and>
      (case GetArrayNode (bodies s input) g of None \<Rightarrow> False | Some n \<Rightarrow> next_op_node n \<noteq> None))"

fun check_leaf_inputs :: "GraphId \<Rightarrow> Array list \<Rightarrow> unit comp" where
  "check_leaf_inputs g [] s = (Inr (), s)"
| "check_leaf_inputs g (input # inputs) s =
     (if is_non_leaf s g input then (Inl (GradientCheckError InputsMustBeLeaf), s)
      else check_leaf_inputs g inputs s)"

text \<open>
  Lines 54 to 60: the first pair, in the order of the two nested loops, of an input and an
  output that are the same body, where the input requires gradient.
\<close>

definition identical_input_output ::
  "store \<Rightarrow> GraphId \<Rightarrow> Array list \<Rightarrow> Array list \<Rightarrow> (nat \<times> nat) option" where
  "identical_input_output s g inputs outputs =
     find (\<lambda>(i, j). inputs ! i = outputs ! j \<and> IsGradRequired s (inputs ! i) g)
       (List.product [0..<length inputs] [0..<length outputs])"

definition check_identical :: "GraphId \<Rightarrow> Array list \<Rightarrow> Array list \<Rightarrow> unit comp" where
  "check_identical g inputs outputs =
     (\<lambda>s. case identical_input_output s g inputs outputs of
             Some (i, j) \<Rightarrow> (Inl (GradientCheckError (IdenticalInputOutput i j)), s)
           | None \<Rightarrow> (Inr (), s))"

text \<open>Lines 62 to 77: the size check of the seed gradients, then the seeding.\<close>

definition seed_outputs :: "GraphId \<Rightarrow> Array list \<Rightarrow> Array list option \<Rightarrow> unit comp" where
  "seed_outputs g outputs grad_outputs =
     (case grad_outputs of
        None \<Rightarrow> returnC ()
      | Some gos \<Rightarrow>
          if length outputs \<noteq> length gos
          then throwC (GradientCheckError (GradOutputsSize (length outputs) (length gos)))
          else (\<lambda>s. (Inr (),
                 fold (\<lambda>(out, go) s'. if IsGradRequired s' out g then SetGrad out go g s' else s')
                   (zip outputs gos) s)))"

text \<open>Lines 80 to 84.\<close>

definition clear_input_grads :: "GraphId \<Rightarrow> Array list \<Rightarrow> unit comp" where
  "clear_input_grads g inputs =
     (\<lambda>s. (Inr (),
        fold (\<lambda>input s'. if IsGradRequired s' input g then ClearGrad input g s' else s') inputs s))"

text \<open>Lines 93 to 100: one optional gradient per input, in input order.\<close>

definition harvest_grads :: "GraphId \<Rightarrow> Array list \<Rightarrow> Array option list comp" where
  "harvest_grads g inputs =
     getC (\<lambda>s. map (\<lambda>input. if \<not> IsGradRequired s input g then None else GetGrad s input g) inputs)"

definition BackwardGradients ::
  "env \<Rightarrow> (Array list \<Rightarrow> Array list comp) \<Rightarrow> Array list \<Rightarrow> Array list option \<Rightarrow> GraphId \<Rightarrow>
   DoubleBackpropOption \<Rightarrow> Array option list comp" where
  "BackwardGradients E func inputs grad_outputs g double_backprop =
     bindC (check_leaf_inputs g inputs) (\<lambda>_.
     bindC (func inputs) (\<lambda>outputs.
     bindC (check_identical g inputs outputs) (\<lambda>_.
     bindC (seed_outputs g outputs grad_outputs) (\<lambda>_.
     bindC (clear_input_grads g inputs) (\<lambda>_.
     bindC (\<lambda>s. Backward E (filter (\<lambda>a. IsGradRequired s a g) outputs) g double_backprop s) (\<lambda>_.
     harvest_grads g inputs))))))"

subsection \<open>Double-backprop toggle verification\<close>

fun square_outputs :: "env \<Rightarrow> Array list \<Rightarrow> Array list comp" where
  "square_outputs E [] = returnC []"
| "square_outputs E (output # outputs) =
     bindC (Multiply E output output) (\<lambda>sq.
     bindC (square_outputs E outputs) (\<lambda>sqs. returnC (sq # sqs)))"

definition nonlinear_func ::
  "env \<Rightarrow> (Array list \<Rightarrow> Array list comp) \<Rightarrow> Array list \<Rightarrow> Array list comp" where
  "nonlinear_func E func func_inputs = bindC (func func_inputs) (square_outputs E)"

text \<open>
  Lines 126 to 133 and 142 to 149: what each loop appends to the report. Every entry is a
  text that is not empty, so the report is empty exactly when no entry was appended.
\<close>

definition disabled_failures :: "store \<Rightarrow> GraphId \<Rightarrow> Array option list \<Rightarrow> toggle_failure list" where
  "disabled_failures s g grads =
     concat (map (\<lambda>(i, gr). case gr of
                     None \<Rightarrow> []
                   | Some a \<Rightarrow> if IsGradRequired s a g
                              then [ConnectedWhenDisabled i (length grads) g] else [])
              (enumerate 0 grads))"

definition enabled_failures :: "store \<Rightarrow> GraphId \<Rightarrow> Array option list \<Rightarrow> toggle_failure list" where
  "enabled_failures s g grads =
     concat (map (\<lambda>(i, gr). case gr of
                     None \<Rightarrow> []
                   | Some a \<Rightarrow> if \<not> IsGradRequired s a g
                              then [NotConnectedWhenEnabled i (length grads) g] else [])
              (enumerate 0 grads))"

definition CheckDoubleBackpropOption ::
  "env \<Rightarrow> (Array list \<Rightarrow> Array list comp) \<Rightarrow> Array list \<Rightarrow> GraphId \<Rightarrow> unit comp" where
  "CheckDoubleBackpropOption E func inputs g =
     bindC (liftC (DisconnectInputArrays inputs)) (\<lambda>inputs_disconnected.
     bindC (BackwardGradients E (nonlinear_func E func) inputs_disconnected None g kDisable) (\<lambda>grads.
     bindC (getC (\<lambda>s. disabled_failures s g grads)) (\<lambda>failure_os.
     bindC (liftC (DisconnectInputArrays inputs)) (\<lambda>inputs_disconnected'.
     bindC (BackwardGradients E (nonlinear_func E func) inputs_disconnected' None g kEnable) (\<lambda>grads'.
     bindC (getC (\<lambda>s. failure_os @ enabled_failures s g grads')) (\<lambda>failure_message.
     if failure_message \<noteq> [] then throwC (GradientCheckError (ToggleReport failure_message))
     else returnC ()))))))"

subsection \<open>First-order gradient check\<close>

text \<open>
  Lines 176 to 203: for every input that has a gradient, the gradient's shape and then its
  dtype are compared with the input's; the first mismatch is thrown. \<open>i\<close> is the index
  of the head of the lists and \<open>n\<close> is \<^verbatim>\<open>inputs.size()\<close>.
\<close>

fun check_grad_shapes :: "nat \<Rightarrow> nat \<Rightarrow> Array list \<Rightarrow> Array option list \<Rightarrow> unit comp" where
  "check_grad_shapes i n (input # inputs) (None # grads) s = check_grad_shapes (Suc i) n inputs grads s"
| "check_grad_shapes i n (input # inputs) (Some backward_grad # grads) s =
     (if shape (bodies s backward_grad) \<noteq> shape (bodies s input)
      then (Inl (GradientCheckError
              (GradientShape i n (shape (bodies s backward_grad)) (shape (bodies s input)))), s)
      else if dtype (bodies s backward_grad) \<noteq> dtype (bodies s input)
      then (Inl (GradientCheckError
              (GradientDtype i n (dtype (bodies s backward_grad)) (dtype (bodies s input)))), s)
      else check_grad_shapes (Suc i) n inputs grads s)"
| "check_grad_shapes i n _ _ s = (Inr (), s)"

text \<open>Lines 209 to 213: the assertions on the estimator's result.\<close>

fun assert_same_shapes :: "Array list \<Rightarrow> Array list \<Rightarrow> unit comp" where
  "assert_same_shapes (input # inputs) (numerical_grad # numerical_grads) s =
     (if shape (bodies s numerical_grad) \<noteq> shape (bodies s input)
      then (Inl (AssertionFailure ''numerical_grads[i].shape() == inputs[i].shape()''), s)
      else if dtype (bodies s numerical_grad) \<noteq> dtype (bodies s input)
      then (Inl (AssertionFailure ''numerical_grads[i].dtype() == inputs[i].dtype()''), s)
      else assert_same_shapes inputs numerical_grads s)"
| "assert_same_shapes _ _ s = (Inr (), s)"

definition assert_numerical_grads :: "Array list \<Rightarrow> Array list \<Rightarrow> unit comp" where
  "assert_numerical_grads inputs numerical_grads =
     (if length numerical_grads \<noteq> length inputs
      then throwC (AssertionFailure ''numerical_grads.size() == inputs.size()'')
      else assert_same_shapes inputs numerical_grads)"

text \<open>
  Lines 216 to 224: the indices whose analytic gradient exists and is not close to the
  numerical one. Both lists have the length of the inputs when the loop is reached.
\<close>

definition failed_input_indices ::
  "store \<Rightarrow> Array option list \<Rightarrow> Array list \<Rightarrow> real \<Rightarrow> real \<Rightarrow> nat list" where
  "failed_input_indices s backward_grads numerical_grads atol rtol =
     map fst (filter (\<lambda>(i, bg, ng). case bg of None \<Rightarrow> False
                                     | Some a \<Rightarrow> \<not> AllClose s a ng atol rtol)
                (enumerate 0 (zip backward_grads numerical_grads)))"

text \<open>
  Lines 237 to 246 and 435 to 444: while it builds the report, the source reads
  \<^verbatim>\<open>eps[i]\<close> for every failed index \<open>i\<close>, with no check of the size of
  \<^verbatim>\<open>eps\<close>. The read is undefined when some failed index has no element in
  \<^verbatim>\<open>eps\<close>.
\<close>

definition eps_read_undefined :: "Array list \<Rightarrow> nat list \<Rightarrow> bool" where
  "eps_read_undefined eps failed = list_ex (\<lambda>i. length eps \<le> i) failed"

text \<open>
  Lines 225 to 248. The report's text prints arrays; the model keeps what decides the
  outcome: the number of inputs, the failed indices, the graph, the tolerances, and
  whether every read of \<^verbatim>\<open>eps\<close> is defined.
\<close>

definition compare_grads ::
  "nat \<Rightarrow> GraphId \<Rightarrow> Array option list \<Rightarrow> Array list \<Rightarrow> Array list \<Rightarrow> real \<Rightarrow> real \<Rightarrow>
   unit comp" where
  "compare_grads n g backward_grads numerical_grads eps atol rtol =
     bindC (getC (\<lambda>s. failed_input_indices s backward_grads numerical_grads atol rtol)) (\<lambda>failed.
     if failed \<noteq> []
     then (if eps_read_undefined eps failed then throwC (UndefinedBehaviour ''eps[i]'')
           else throwC (GradientCheckError (NumericalError n failed g atol rtol)))
     else returnC ())"

definition CheckBackwardComputation ::
  "env \<Rightarrow> (Array list \<Rightarrow> Array list comp) \<Rightarrow> Array list \<Rightarrow> Array list \<Rightarrow> Array list \<Rightarrow>
   real \<Rightarrow> real \<Rightarrow> GraphId option \<Rightarrow> unit comp" where
  "CheckBackwardComputation E func inputs grad_outputs eps atol rtol opt_graph_id =
     (case inputs of
        [] \<Rightarrow> throwC (AssertionFailure ''!inputs.empty()'')
      | front # _ \<Rightarrow>
          bindC (getC (\<lambda>s. GetArrayGraphId E s front opt_graph_id)) (\<lambda>actual_graph_id.
          bindC (liftC (DisconnectInputArrays inputs)) (\<lambda>inputs_disconnected.
          bindC (BackwardGradients E func inputs_disconnected (Some grad_outputs)
                   actual_graph_id kDisable) (\<lambda>backward_grads.
          if length backward_grads \<noteq> length inputs
          then throwC (GradientCheckError InputGradientsCount)
          else
          bindC (check_grad_shapes 0 (length inputs) inputs backward_grads) (\<lambda>_.
          bindC (CalculateNumericalGradient E func inputs grad_outputs eps) (\<lambda>numerical_grads.
          bindC (assert_numerical_grads inputs numerical_grads) (\<lambda>_.
          compare_grads (length inputs) actual_graph_id backward_grads numerical_grads
            eps atol rtol)))))))"

subsection \<open>Leak detection and the first public entry point\<close>

text \<open>Lines 256 to 261.\<close>

definition CheckAllArrayBodiesFreed :: "env \<Rightarrow> unit comp" where
  "CheckAllArrayBodiesFreed E =
     (\<lambda>s. case IsAllArrayBodiesFreed E s of
             (freed, os) \<Rightarrow> if \<not> freed then (Inl (GradientCheckError (LeakReport os)), s)
                            else (Inr (), s))"

text \<open>
  A block that declares an \<^verbatim>\<open>ArrayBodyLeakDetectionScope\<close>: the scope is open while
  the block runs and is closed when the block is left, by returning or by an exception.
\<close>

definition in_leak_scope :: "'a comp \<Rightarrow> 'a comp" where
  "in_leak_scope m =
     (\<lambda>s. case m (s\<lparr>leak_scope := True\<rparr>) of (r, s') \<Rightarrow> (r, s'\<lparr>leak_scope := False\<rparr>))"

definition CheckBackward ::
  "env \<Rightarrow> (Array list \<Rightarrow> Array list comp) \<Rightarrow> Array list \<Rightarrow> Array list \<Rightarrow> Array list \<Rightarrow>
   real \<Rightarrow> real \<Rightarrow> GraphId option \<Rightarrow> unit comp" where
  "CheckBackward E func inputs grad_outputs eps atol rtol opt_graph_id =
     (case inputs of
        [] \<Rightarrow> throwC (AssertionFailure ''!inputs.empty()'')
      | front # _ \<Rightarrow>
          bindC (getC (\<lambda>s. GetArrayGraphId E s front opt_graph_id)) (\<lambda>actual_graph_id.
          bindC (in_leak_scope (CheckDoubleBackpropOption E func inputs actual_graph_id)) (\<lambda>_.
          bindC (CheckAllArrayBodiesFreed E) (\<lambda>_.
          bindC (in_leak_scope (CheckBackwardComputation E func inputs grad_outputs eps
                   atol rtol opt_graph_id)) (\<lambda>_.
          CheckAllArrayBodiesFreed E)))))"

subsection \<open>Second-order gradient check\<close>

text \<open>
  A block that declares a \<^verbatim>\<open>ForceBackpropModeScope\<close> of a graph. No operation of the
  model reads the mode; the collaborators may.
\<close>

definition in_force_backprop_scope :: "GraphId \<Rightarrow> 'a comp \<Rightarrow> 'a comp" where
  "in_force_backprop_scope g m =
     (\<lambda>s. case m (s\<lparr>forced_backprop := g # forced_backprop s\<rparr>) of
             (r, s') \<Rightarrow> (r, s'\<lparr>forced_backprop := tl (forced_backprop s')\<rparr>))"

text \<open>Lines 356 to 360 and 362 to 367: the first index that fails, if any.\<close>

definition first_missing :: "Array option list \<Rightarrow> nat option" where
  "first_missing grads = map_option fst (find (\<lambda>(i, gr). gr = None) (enumerate 0 grads))"

definition first_not_required :: "store \<Rightarrow> GraphId \<Rightarrow> Array list \<Rightarrow> nat option" where
  "first_not_required s g arrays =
     map_option fst (find (\<lambda>(i, a). \<not> IsGradRequired s a g) (enumerate 0 arrays))"

text \<open>
  Lines 333 to 379, the function whose gradients the second-order check takes. The two
  iterator ranges of lines 335 and 336 are defined only when the argument has at least
  \<open>nin\<close> elements. \<open>List.map_filter\<close> with the identity is the conversion of line 375,
  reached only when every gradient has a value.
\<close>

definition first_order_grad_func ::
  "env \<Rightarrow> (Array list \<Rightarrow> Array list comp) \<Rightarrow> nat \<Rightarrow> GraphId \<Rightarrow> Array list \<Rightarrow> Array list comp" where
  "first_order_grad_func E func nin g inputs_and_grad_outputs =
     (if length inputs_and_grad_outputs < nin
      then throwC (UndefinedBehaviour ''inputs_and_grad_outputs.begin() + nin'')
      else in_force_backprop_scope g
        (bindC (\<lambda>s. (Inr (), fold (\<lambda>input. RequireGrad input g) (take nin inputs_and_grad_outputs) s)) (\<lambda>_.
         bindC (BackwardGradients E func (take nin inputs_and_grad_outputs)
                  (Some (drop nin inputs_and_grad_outputs)) g kEnable) (\<lambda>optional_backward_grads.
         if length optional_backward_grads \<noteq> nin
         then throwC (GradientCheckError (FirstOrderCount (length optional_backward_grads) nin))
         else
           (case first_missing optional_backward_grads of
              Some i \<Rightarrow> throwC (GradientCheckError (FirstOrderMissing i nin))
            | None \<Rightarrow>
                bindC (getC (\<lambda>s. first_not_required s g
                                  (List.map_filter (\<lambda>x. x) optional_backward_grads))) (\<lambda>bad.
                case bad of
                  Some i \<Rightarrow> throwC (GradientCheckError (FirstOrderNotDifferentiable i nin g))
                | None \<Rightarrow> returnC (List.map_filter (\<lambda>x. x) optional_backward_grads)))))))"

text \<open>Lines 399 to 413: the indices of the missing second-order gradients.\<close>

definition missing_indices :: "Array option list \<Rightarrow> nat list" where
  "missing_indices grads = map fst (filter (\<lambda>(i, gr). gr = None) (enumerate 0 grads))"

text \<open>Lines 317 to 329: the two loops that require gradients of the inputs and of the seeds.\<close>

definition check_inputs_require_grad :: "GraphId \<Rightarrow> Array list \<Rightarrow> unit comp" where
  "check_inputs_require_grad g inputs =
     (\<lambda>s. case first_not_required s g inputs of
             Some i \<Rightarrow> (Inl (XchainerError (InputNotDifferentiable i (length inputs) g)), s)
           | None \<Rightarrow> (Inr (), s))"

definition check_grad_outputs_require_grad :: "GraphId \<Rightarrow> Array list \<Rightarrow> unit comp" where
  "check_grad_outputs_require_grad g grad_outputs =
     (\<lambda>s. case first_not_required s g grad_outputs of
             Some i \<Rightarrow> (Inl (XchainerError (OutputGradNotDifferentiable i (length grad_outputs) g)), s)
           | None \<Rightarrow> (Inr (), s))"

text \<open>Lines 398 to 447: the missing gradients, then the comparison.\<close>

definition compare_second_order ::
  "nat \<Rightarrow> nat \<Rightarrow> GraphId \<Rightarrow> Array option list \<Rightarrow> Array list \<Rightarrow> Array list \<Rightarrow> real \<Rightarrow> real \<Rightarrow>
   unit comp" where
  "compare_second_order nin nout g backward_grads numerical_grads eps atol rtol =
     (if missing_indices backward_grads \<noteq> []
      then throwC (GradientCheckError (SecondOrderMissing (missing_indices backward_grads) nin nout g))
      else
        bindC (getC (\<lambda>s. failed_input_indices s backward_grads numerical_grads atol rtol)) (\<lambda>failed.
        if failed \<noteq> []
        then (if eps_read_undefined eps failed then throwC (UndefinedBehaviour ''eps[i]'')
              else throwC (GradientCheckError (DoubleNumericalError nin failed g atol rtol)))
        else returnC ()))"

definition CheckDoubleBackwardComputationImpl ::
  "env \<Rightarrow> (Array list \<Rightarrow> Array list comp) \<Rightarrow> Array list \<Rightarrow> Array list \<Rightarrow> Array list \<Rightarrow>
   Array list \<Rightarrow> real \<Rightarrow> real \<Rightarrow> GraphId option \<Rightarrow> unit comp" where
  "CheckDoubleBackwardComputationImpl E func inputs grad_outputs grad_grad_inputs eps atol rtol
     opt_graph_id =
     (case inputs of
        [] \<Rightarrow> throwC (UndefinedBehaviour ''inputs.front()'')
      | front # _ \<Rightarrow>
          bindC (getC (\<lambda>s. GetArrayGraphId E s front opt_graph_id)) (\<lambda>actual_graph_id.
          if length grad_grad_inputs \<noteq> length inputs
          then throwC (XchainerError GradGradInputsCount)
          else
          bindC (check_inputs_require_grad actual_graph_id inputs) (\<lambda>_.
          bindC (check_grad_outputs_require_grad actual_graph_id grad_outputs) (\<lambda>_.
          bindC (CalculateNumericalGradient E
                   (first_order_grad_func E func (length inputs) actual_graph_id)
                   (inputs @ grad_outputs) grad_grad_inputs eps) (\<lambda>numerical_grads.
          if length numerical_grads \<noteq> length inputs + length grad_outputs
          then throwC (AssertionFailure ''numerical_grads.size() == nin + nout'')
          else
          bindC (BackwardGradients E
                   (first_order_grad_func E func (length inputs) actual_graph_id)
                   (inputs @ grad_outputs) (Some grad_grad_inputs) actual_graph_id kEnable)
            (\<lambda>backward_grads.
          if length backward_grads \<noteq> length inputs + length grad_outputs
          then throwC (AssertionFailure ''backward_grads.size() == nin + nout'')
          else compare_second_order (length inputs) (length grad_outputs) actual_graph_id
                 backward_grads numerical_grads eps atol rtol))))))"

text \<open>
  Lines 463 and 464, the statement inside the leak detection scope. The order in which
  C++ evaluates the two isolations is unspecified; the model takes it from the
  parameter \<open>isolates_inputs_first\<close>.
\<close>

definition isolated_second_order_check ::
  "env \<Rightarrow> (Array list \<Rightarrow> Array list comp) \<Rightarrow> Array list \<Rightarrow> Array list \<Rightarrow> Array list \<Rightarrow>
   Array list \<Rightarrow> real \<Rightarrow> real \<Rightarrow> GraphId option \<Rightarrow> unit comp" where
  "isolated_second_order_check E func inputs grad_outputs grad_grad_inputs eps atol rtol
     opt_graph_id =
     (if isolates_inputs_first E
      then
        bindC (liftC (DisconnectInputArrays inputs)) (\<lambda>inputs_disconnected.
        bindC (liftC (DisconnectInputArrays grad_outputs)) (\<lambda>grad_outputs_disconnected.
        CheckDoubleBackwardComputationImpl E func inputs_disconnected
          grad_outputs_disconnected grad_grad_inputs eps atol rtol opt_graph_id))
      else
        bindC (liftC (DisconnectInputArrays grad_outputs)) (\<lambda>grad_outputs_disconnected.
        bindC (liftC (DisconnectInputArrays inputs)) (\<lambda>inputs_disconnected.
        CheckDoubleBackwardComputationImpl E func inputs_disconnected
          grad_outputs_disconnected grad_grad_inputs eps atol rtol opt_graph_id)))"

text \<open>Lines 451 to 467.\<close>

definition CheckDoubleBackwardComputation ::
  "env \<Rightarrow> (Array list \<Rightarrow> Array list comp) \<Rightarrow> Array list \<Rightarrow> Array list \<Rightarrow> Array list \<Rightarrow>
   Array list \<Rightarrow> real \<Rightarrow> real \<Rightarrow> GraphId option \<Rightarrow> unit comp" where
  "CheckDoubleBackwardComputation E func inputs grad_outputs grad_grad_inputs eps atol rtol
     opt_graph_id =
     bindC (in_leak_scope
              (isolated_second_order_check E func inputs grad_outputs grad_grad_inputs eps
                 atol rtol opt_graph_id)) (\<lambda>_.
     CheckAllArrayBodiesFreed E)"

subsection \<open>Auxiliary predicates and example inputs\<close>

text \<open>Every node of the body is a leaf with an empty gradient slot.\<close>

definition fresh_leaves :: "store \<Rightarrow> Array \<Rightarrow> bool" where
  "fresh_leaves s a = list_all (\<lambda>n. next_op_node n = None \<and> grad n = None) (nodes (bodies s a))"

text \<open>
  A store with one array: body 0 over buffer 5, with a node of graph \<open>g\<close> that has a
  producing operation and a gradient.
\<close>

definition ex_body :: ArrayBody where
  "ex_body = \<lparr>data = 0, shape = [], dtype = 0, nodes = []\<rparr>"

definition ex_store :: store where
  "ex_store = \<lparr>bodies = (\<lambda>_. ex_body)
       (0 := \<lparr>data = 5, shape = [2], dtype = 1,
              nodes = [\<lparr>graph_id = ''g'', next_op_node = Some 3, grad = Some 0\<rparr>]\<rparr>),
     next_body = 1, buffers = (\<lambda>_. []), leak_scope = False, forced_backprop = []\<rparr>"

text \<open>
  A forward function that returns its inputs, collaborators that do nothing, and a store
  whose only array is a leaf of graph \<open>g\<close>.
\<close>

definition ex_identity :: "Array list \<Rightarrow> Array list comp" where
  "ex_identity inputs = returnC inputs"

definition ex_env :: env where
  "ex_env = \<lparr>Backward = (\<lambda>outputs g opt. returnC ()),
             Multiply = (\<lambda>a b. returnC a),
             CalculateNumericalGradient = (\<lambda>f inputs grad_outputs eps. returnC inputs),
             IsAllArrayBodiesFreed = (\<lambda>s. (True, [])),
             default_graph_id = (\<lambda>s a. ''default''),
             isolates_inputs_first = True\<rparr>"

definition ex_leaf_store :: store where
  "ex_leaf_store = \<lparr>bodies = (\<lambda>_. ex_body)
       (0 := \<lparr>data = 5, shape = [2], dtype = 1,
              nodes = [\<lparr>graph_id = ''g'', next_op_node = None, grad = None\<rparr>]\<rparr>),
     next_body = 1, buffers = (\<lambda>_. []), leak_scope = False, forced_backprop = []\<rparr>"

text \<open>
  A store for whole checks: array 0 is the input (a leaf of graph \<open>g\<close>), array 1 the
  output every call of the forward function returns, array 2 a seed gradient, arrays 3
  and 4 analytic gradients of value 2 (array 4 has a node of \<open>g\<close>, array 3 has none), and
  array 5 a numerical gradient of value 5. The backward engine of the example writes a
  gradient into the body allocated last, which is the isolated input: array 3 when double
  backprop is disabled and array 4 when it is enabled. The broken engine writes array 4
  in both modes.
\<close>

definition ex2_store :: store where
  "ex2_store = \<lparr>bodies = (\<lambda>_. ex_body)
       (0 := \<lparr>data = 0, shape = [1], dtype = 1,
              nodes = [\<lparr>graph_id = ''g'', next_op_node = None, grad = None\<rparr>]\<rparr>,
        1 := \<lparr>data = 1, shape = [1], dtype = 1,
              nodes = [\<lparr>graph_id = ''g'', next_op_node = Some 0, grad = None\<rparr>]\<rparr>,
        2 := \<lparr>data = 2, shape = [1], dtype = 1, nodes = []\<rparr>,
        3 := \<lparr>data = 3, shape = [1], dtype = 1, nodes = []\<rparr>,
        4 := \<lparr>data = 3, shape = [1], dtype = 1,
              nodes = [\<lparr>graph_id = ''g'', next_op_node = Some 1, grad = None\<rparr>]\<rparr>,
        5 := \<lparr>data = 4, shape = [1], dtype = 1, nodes = []\<rparr>),
     next_body = 6,
     buffers = (\<lambda>_. [])(0 := [1], 1 := [2], 2 := [1], 3 := [2], 4 := [5]),
     leak_scope = False, forced_backprop = []\<rparr>"

definition ex2_func :: "Array list \<Rightarrow> Array list comp" where
  "ex2_func inputs = returnC [1]"

definition ex2_env :: env where
  "ex2_env = \<lparr>Backward = (\<lambda>outputs g opt s. (Inr (),
                 SetGrad (next_body s - 1) (case opt of kDisable \<Rightarrow> 3 | kEnable \<Rightarrow> 4) g s)),
             Multiply = (\<lambda>a b. returnC a),
             CalculateNumericalGradient = (\<lambda>f inputs grad_outputs eps. returnC [5]),
             IsAllArrayBodiesFreed = (\<lambda>s. (True, [])),
             default_graph_id = (\<lambda>s a. ''g''),
             isolates_inputs_first = False\<rparr>"

definition ex2_broken_env :: env where
  "ex2_broken_env = ex2_env\<lparr>Backward := (\<lambda>outputs g opt s. (Inr (), SetGrad (next_body s - 1) 4 g s))\<rparr>"

text \<open>A forward function that returns no output.\<close>

definition ex_no_outputs :: "Array list \<Rightarrow> Array list comp" where
  "ex_no_outputs inputs = returnC []"

text \<open>
  A gradient fits an input when it is absent or has the input's shape and dtype: what
  lines 176 to 203 check of an analytic gradient and lines 210 to 213 assert of a
  numerical one.
\<close>

definition gradient_fits :: "store \<Rightarrow> Array \<Rightarrow> Array option \<Rightarrow> bool" where
  "gradient_fits s input gr =
     (case gr of None \<Rightarrow> True
      | Some a \<Rightarrow> shape (bodies s a) = shape (bodies s input) \<and>
                 dtype (bodies s a) = dtype (bodies s input))"

text \<open>
  A backward engine for the second-order check: run on no outputs (the first-order pass
  of the example, whose forward function returns none) it writes the connected gradient,
  array 4, into the input; run on any outputs it writes nothing.
\<close>

definition ex3_env :: env where
  "ex3_env = ex2_env\<lparr>Backward := (\<lambda>outputs g opt s.
                 (Inr (), if outputs = [] then SetGrad 0 4 g s else s))\<rparr>"

text \<open>Collaborators whose leak tracker finds a body that is still alive.\<close>

definition ex2_leak_env :: env where
  "ex2_leak_env = ex2_env\<lparr>IsAllArrayBodiesFreed := (\<lambda>s. (False, ''1 array body is alive''))\<rparr>"

text \<open>
  The broken engine together with a leak tracker that finds a survivor, and a backward
  engine for a second-order check that passes: it writes into the isolated input (the
  body allocated last) the connected gradient, array 4, in the first-order pass and the
  gradient of value 2, array 3, in the second-order pass.
\<close>

definition ex2_broken_leak_env :: env where
  "ex2_broken_leak_env =
     ex2_broken_env\<lparr>IsAllArrayBodiesFreed := (\<lambda>s. (False, ''1 array body is alive''))\<rparr>"

definition ex4_env :: env where
  "ex4_env = ex2_env\<lparr>Backward := (\<lambda>outputs g opt s.
     (Inr (), SetGrad (next_body s - 1) (if outputs = [] then 4 else 3) g s))\<rparr>"

definition ex4_leak_env :: env where
  "ex4_leak_env = ex4_env\<lparr>IsAllArrayBodiesFreed := (\<lambda>s. (False, ''1 array body is alive''))\<rparr>"

text \<open>
  The store of the example with array 3 replaced: it now shares the data buffer of the
  numerical gradient, array 5, and has another dtype than the input.
\<close>

definition ex5_store :: store where
  "ex5_store = ex2_store\<lparr>bodies := (bodies ex2_store)
     (3 := \<lparr>data = 4, shape = [1], dtype = 2, nodes = []\<rparr>)\<rparr>"

text \<open>
  A forward function that returns a view of its first input: a new body over the same
  data buffer, as \<^verbatim>\<open>AsGradStopped(CopyKind::kView)\<close> makes it.
\<close>

definition ex_view :: "Array list \<Rightarrow> Array list comp" where
  "ex_view inputs =
     (case inputs of
        [] \<Rightarrow> returnC []
      | input # _ \<Rightarrow> (\<lambda>s. case AsGradStopped_kView input s of (a, s') \<Rightarrow> (Inr [a], s')))"








section \<open>Verified properties\<close>

text \<open>
  The definitions by groups, for the evaluation of the functions on the example inputs.
\<close>

lemmas ex2_defs = ex2_store_def ex2_func_def ex2_env_def ex2_broken_env_def ex_body_def
lemmas comp_defs = bindC_def liftC_def getC_def throwC_def returnC_def
lemmas array_defs = disconnect_input_def AsGradStopped_kView_def Let_def RequireGrad_def HasArrayNode_def
  GetArrayNode_def IsGradRequired_def SetGrad_def ClearGrad_def GetGrad_def
lemmas extraction_defs = BackwardGradients_def is_non_leaf_def check_identical_def
  identical_input_output_def seed_outputs_def clear_input_grads_def harvest_grads_def nonlinear_func_def

lemmas second_order_defs = CheckDoubleBackwardComputationImpl_def first_order_grad_func_def
  in_force_backprop_scope_def first_missing_def first_not_required_def missing_indices_def
  check_inputs_require_grad_def check_grad_outputs_require_grad_def compare_second_order_def
  GetArrayGraphId_def List.map_filter_def

lemmas check_defs = ex4_env_def ex4_leak_env_def ex3_env_def ex_no_outputs_def
  ex_leaf_store_def ex_env_def ex_identity_def
  CheckDoubleBackwardComputation_def isolated_second_order_check_def
  CheckDoubleBackpropOption_def disabled_failures_def enabled_failures_def
  in_leak_scope_def CheckAllArrayBodiesFreed_def CheckBackwardComputation_def GetArrayGraphId_def
  compare_grads_def failed_input_indices_def AllClose_def assert_numerical_grads_def
  eps_read_undefined_def
  ex2_leak_env_def ex2_broken_leak_env_def

subsection \<open>Graph isolation\<close>

lemma AsGradStopped_kView_simps:
  "fst (AsGradStopped_kView a s) = next_body s"
  "next_body (snd (AsGradStopped_kView a s)) = Suc (next_body s)"
  "bodies (snd (AsGradStopped_kView a s)) = (bodies s)(next_body s := (bodies s a)\<lparr>nodes := []\<rparr>)"
  "buffers (snd (AsGradStopped_kView a s)) = buffers s"
  "leak_scope (snd (AsGradStopped_kView a s)) = leak_scope s"
  "forced_backprop (snd (AsGradStopped_kView a s)) = forced_backprop s"
  by (simp_all add: AsGradStopped_kView_def Let_def)

lemma RequireGrad_frame:
  "next_body (RequireGrad a g s) = next_body s"
  "buffers (RequireGrad a g s) = buffers s"
  "leak_scope (RequireGrad a g s) = leak_scope s"
  "forced_backprop (RequireGrad a g s) = forced_backprop s"
  "b \<noteq> a \<Longrightarrow> bodies (RequireGrad a g s) b = bodies s b"
  "data (bodies (RequireGrad a g s) a) = data (bodies s a)"
  "shape (bodies (RequireGrad a g s) a) = shape (bodies s a)"
  "dtype (bodies (RequireGrad a g s) a) = dtype (bodies s a)"
  by (simp_all add: RequireGrad_def)

lemma RequireGrad_graphs:
  "graph_id ` set (nodes (bodies (RequireGrad a g s) a)) = insert g (graph_id ` set (nodes (bodies s a)))"
  by (auto simp add: RequireGrad_def HasArrayNode_def list_ex_iff)

lemma RequireGrad_leaves:
  "list_all (\<lambda>n. next_op_node n = None \<and> grad n = None) (nodes (bodies s a)) \<Longrightarrow>
   list_all (\<lambda>n. next_op_node n = None \<and> grad n = None) (nodes (bodies (RequireGrad a g s) a))"
  by (simp add: RequireGrad_def)

lemma fold_RequireGrad:
  "next_body (fold (\<lambda>n. RequireGrad a (graph_id n)) ns s) = next_body s \<and>
   buffers (fold (\<lambda>n. RequireGrad a (graph_id n)) ns s) = buffers s \<and>
   leak_scope (fold (\<lambda>n. RequireGrad a (graph_id n)) ns s) = leak_scope s \<and>
   forced_backprop (fold (\<lambda>n. RequireGrad a (graph_id n)) ns s) = forced_backprop s \<and>
   (\<forall>b. b \<noteq> a \<longrightarrow> bodies (fold (\<lambda>n. RequireGrad a (graph_id n)) ns s) b = bodies s b) \<and>
   data (bodies (fold (\<lambda>n. RequireGrad a (graph_id n)) ns s) a) = data (bodies s a) \<and>
   shape (bodies (fold (\<lambda>n. RequireGrad a (graph_id n)) ns s) a) = shape (bodies s a) \<and>
   dtype (bodies (fold (\<lambda>n. RequireGrad a (graph_id n)) ns s) a) = dtype (bodies s a) \<and>
   graph_id ` set (nodes (bodies (fold (\<lambda>n. RequireGrad a (graph_id n)) ns s) a))
     = graph_id ` set ns \<union> graph_id ` set (nodes (bodies s a)) \<and>
   (fresh_leaves s a \<longrightarrow> fresh_leaves (fold (\<lambda>n. RequireGrad a (graph_id n)) ns s) a)"
proof (induction ns arbitrary: s)
  case Nil
  show ?case by simp
next
  case (Cons n ns)
  show ?case
    using Cons.IH [of "RequireGrad a (graph_id n) s"]
    by (simp add: RequireGrad_frame RequireGrad_graphs fresh_leaves_def RequireGrad_leaves)
qed


lemma disconnect_input_props:
  assumes "input < next_body s"
  shows "fst (disconnect_input input s) = next_body s \<and>
   next_body (snd (disconnect_input input s)) = Suc (next_body s) \<and>
   buffers (snd (disconnect_input input s)) = buffers s \<and>
   leak_scope (snd (disconnect_input input s)) = leak_scope s \<and>
   forced_backprop (snd (disconnect_input input s)) = forced_backprop s \<and>
   (\<forall>b. b \<noteq> next_body s \<longrightarrow> bodies (snd (disconnect_input input s)) b = bodies s b) \<and>
   data (bodies (snd (disconnect_input input s)) (next_body s)) = data (bodies s input) \<and>
   shape (bodies (snd (disconnect_input input s)) (next_body s)) = shape (bodies s input) \<and>
   dtype (bodies (snd (disconnect_input input s)) (next_body s)) = dtype (bodies s input) \<and>
   graph_id ` set (nodes (bodies (snd (disconnect_input input s)) (next_body s)))
     = graph_id ` set (nodes (bodies s input)) \<and>
   fresh_leaves (snd (disconnect_input input s)) (next_body s)"
proof -
  let ?s1 = "snd (AsGradStopped_kView input s)"
  let ?a = "next_body s"
  have ne: "input \<noteq> ?a" using assms by simp
  have b1: "bodies ?s1 input = bodies s input"
    using ne by (simp add: AsGradStopped_kView_simps)
  have fl: "fresh_leaves ?s1 ?a"
    by (simp add: fresh_leaves_def AsGradStopped_kView_simps)
  have eq: "disconnect_input input s =
      (?a, fold (\<lambda>n. RequireGrad ?a (graph_id n)) (nodes (bodies s input)) ?s1)"
    by (simp add: disconnect_input_def AsGradStopped_kView_def Let_def ne)
  show ?thesis
    unfolding eq using fold_RequireGrad [of ?a "nodes (bodies s input)" ?s1] fl
    by (simp add: AsGradStopped_kView_simps)
qed


lemma DisconnectInputArrays_props:
  assumes "list_all (\<lambda>a. a < next_body s) inputs"
  shows "fst (DisconnectInputArrays inputs s) = map (\<lambda>i. next_body s + i) [0..<length inputs] \<and>
   next_body (snd (DisconnectInputArrays inputs s)) = next_body s + length inputs \<and>
   buffers (snd (DisconnectInputArrays inputs s)) = buffers s \<and>
   leak_scope (snd (DisconnectInputArrays inputs s)) = leak_scope s \<and>
   forced_backprop (snd (DisconnectInputArrays inputs s)) = forced_backprop s \<and>
   (\<forall>b. b < next_body s \<longrightarrow> bodies (snd (DisconnectInputArrays inputs s)) b = bodies s b) \<and>
   (\<forall>i. i < length inputs \<longrightarrow>
      data (bodies (snd (DisconnectInputArrays inputs s)) (next_body s + i)) = data (bodies s (inputs ! i)) \<and>
      shape (bodies (snd (DisconnectInputArrays inputs s)) (next_body s + i)) = shape (bodies s (inputs ! i)) \<and>
      dtype (bodies (snd (DisconnectInputArrays inputs s)) (next_body s + i)) = dtype (bodies s (inputs ! i)) \<and>
      graph_id ` set (nodes (bodies (snd (DisconnectInputArrays inputs s)) (next_body s + i)))
        = graph_id ` set (nodes (bodies s (inputs ! i))) \<and>
      fresh_leaves (snd (DisconnectInputArrays inputs s)) (next_body s + i))"
  using assms
proof (induction inputs arbitrary: s)
  case Nil
  show ?case by simp
next
  case (Cons input inputs)
  let ?s1 = "snd (disconnect_input input s)"
  let ?s2 = "snd (DisconnectInputArrays inputs ?s1)"
  have lt: "input < next_body s" and rest: "list_all (\<lambda>a. a < next_body s) inputs"
    using Cons.prems by simp_all
  note P = disconnect_input_props [OF lt]
  have nb: "next_body ?s1 = Suc (next_body s)" using P by simp
  have rest1: "list_all (\<lambda>a. a < next_body ?s1) inputs"
    using rest by (simp add: nb list_all_iff less_Suc_eq)
  note IH = Cons.IH [OF rest1]
  have unf: "DisconnectInputArrays (input # inputs) s =
      (next_body s # fst (DisconnectInputArrays inputs ?s1), ?s2)"
    using P by (simp add: split_beta Let_def)
  have old: "\<And>b. b < next_body s \<Longrightarrow> bodies ?s2 b = bodies s b"
    using IH P by (simp add: nb)
  have new0: "bodies ?s2 (next_body s) = bodies ?s1 (next_body s)"
    using IH by (simp add: nb)
  have inp: "\<And>i. i < length inputs \<Longrightarrow> bodies ?s1 (inputs ! i) = bodies s (inputs ! i)"
  proof -
    fix i assume "i < length inputs"
    then have "inputs ! i < next_body s" using rest by (simp add: list_all_length)
    then have "inputs ! i \<noteq> next_body s" by simp
    then show "bodies ?s1 (inputs ! i) = bodies s (inputs ! i)" using P by simp
  qed
  have handles: "fst (DisconnectInputArrays (input # inputs) s)
      = map (\<lambda>i. next_body s + i) [0..<length (input # inputs)]"
  proof -
    have "fst (DisconnectInputArrays inputs ?s1)
        = map (\<lambda>i. next_body s + Suc i) [0..<length inputs]"
      using IH by (simp add: nb)
    then show ?thesis
      unfolding unf by (simp add: map_upt_Suc del: upt_Suc)
  qed
  have per: "\<And>i. i < length (input # inputs) \<Longrightarrow>
      data (bodies ?s2 (next_body s + i)) = data (bodies s ((input # inputs) ! i)) \<and>
      shape (bodies ?s2 (next_body s + i)) = shape (bodies s ((input # inputs) ! i)) \<and>
      dtype (bodies ?s2 (next_body s + i)) = dtype (bodies s ((input # inputs) ! i)) \<and>
      graph_id ` set (nodes (bodies ?s2 (next_body s + i)))
        = graph_id ` set (nodes (bodies s ((input # inputs) ! i))) \<and>
      fresh_leaves ?s2 (next_body s + i)"
  proof -
    fix i assume i: "i < length (input # inputs)"
    show "data (bodies ?s2 (next_body s + i)) = data (bodies s ((input # inputs) ! i)) \<and>
      shape (bodies ?s2 (next_body s + i)) = shape (bodies s ((input # inputs) ! i)) \<and>
      dtype (bodies ?s2 (next_body s + i)) = dtype (bodies s ((input # inputs) ! i)) \<and>
      graph_id ` set (nodes (bodies ?s2 (next_body s + i)))
        = graph_id ` set (nodes (bodies s ((input # inputs) ! i))) \<and>
      fresh_leaves ?s2 (next_body s + i)"
    proof (cases i)
      case 0
      then show ?thesis using P new0 by (simp add: fresh_leaves_def)
    next
      case (Suc j)
      then have j: "j < length inputs" using i by simp
      show ?thesis using IH j inp [OF j] by (simp add: Suc nb fresh_leaves_def)
    qed
  qed
  have frame: "next_body ?s2 = next_body s + length (input # inputs) \<and>
      buffers ?s2 = buffers s \<and> leak_scope ?s2 = leak_scope s \<and>
      forced_backprop ?s2 = forced_backprop s"
    using IH P by (simp add: nb)
  show ?case
    using handles per old frame unfolding unf by (simp del: DisconnectInputArrays.simps)
qed


lemma HasArrayNode_image: "HasArrayNode b g \<longleftrightarrow> g \<in> graph_id ` set (nodes b)"
  by (auto simp add: HasArrayNode_def list_ex_iff)

text \<open>
  Claim C6. For every sequence of inputs whose handles are allocated in the store,
  \<^verbatim>\<open>DisconnectInputArrays\<close> returns one new handle per input, in input order (the
  addresses allocated from \<open>next_body\<close> on). The body of the \<open>i\<close>-th new handle has
  the data buffer, shape and dtype of the \<open>i\<close>-th input, all its nodes are leaves, and
  it requires gradient under exactly the graph identifiers of which the input's body has
  a node. Every body that existed before and every data buffer is unchanged. The
  function has no failure: it returns a list and a store.
\<close>

theorem DisconnectInputArrays_isolates:
  assumes "\<forall>a \<in> set inputs. a < next_body s"
  shows "fst (DisconnectInputArrays inputs s) = map (\<lambda>i. next_body s + i) [0..<length inputs] \<and>
    (\<forall>i < length inputs.
       data (bodies (snd (DisconnectInputArrays inputs s)) (next_body s + i)) = data (bodies s (inputs ! i)) \<and>
       shape (bodies (snd (DisconnectInputArrays inputs s)) (next_body s + i)) = shape (bodies s (inputs ! i)) \<and>
       dtype (bodies (snd (DisconnectInputArrays inputs s)) (next_body s + i)) = dtype (bodies s (inputs ! i)) \<and>
       list_all (\<lambda>n. next_op_node n = None) (nodes (bodies (snd (DisconnectInputArrays inputs s)) (next_body s + i))) \<and>
       (\<forall>g. IsGradRequired (snd (DisconnectInputArrays inputs s)) (next_body s + i) g
             = HasArrayNode (bodies s (inputs ! i)) g)) \<and>
    (\<forall>b < next_body s. bodies (snd (DisconnectInputArrays inputs s)) b = bodies s b) \<and>
    buffers (snd (DisconnectInputArrays inputs s)) = buffers s"
proof -
  have v: "list_all (\<lambda>a. a < next_body s) inputs"
    using assms by (simp add: list_all_iff)
  note P = DisconnectInputArrays_props [OF v]
  have leaves: "\<And>s' a. fresh_leaves s' a \<Longrightarrow> list_all (\<lambda>n. next_op_node n = None) (nodes (bodies s' a))"
    by (simp add: fresh_leaves_def list_all_iff)
  have req: "\<And>s' a b g. graph_id ` set (nodes (bodies s' a)) = graph_id ` set (nodes b)
      \<Longrightarrow> IsGradRequired s' a g = HasArrayNode b g"
    by (simp add: IsGradRequired_def HasArrayNode_image)
  show ?thesis
    using P leaves req by simp
qed

theorem DisconnectInputArrays_isolates_witness:
  "fst (DisconnectInputArrays [0] ex_store) = [1] \<and>
   data (bodies (snd (DisconnectInputArrays [0] ex_store)) 1) = 5 \<and>
   list_all (\<lambda>n. next_op_node n = None) (nodes (bodies (snd (DisconnectInputArrays [0] ex_store)) 1)) \<and>
   IsGradRequired (snd (DisconnectInputArrays [0] ex_store)) 1 ''g'' \<and>
   next_op_node (hd (nodes (bodies (snd (DisconnectInputArrays [0] ex_store)) 0))) = Some 3"
  using DisconnectInputArrays_isolates [of "[0]" ex_store]
  by (simp add: ex_store_def HasArrayNode_def)

subsection \<open>Backward gradient extraction\<close>

lemma check_leaf_inputs_eq:
  "check_leaf_inputs g inputs s =
     (if list_ex (is_non_leaf s g) inputs then (Inl (GradientCheckError InputsMustBeLeaf), s)
      else (Inr (), s))"
  by (induction inputs) simp_all

lemma GetArrayNode_Some_HasArrayNode:
  "GetArrayNode body g = Some n \<Longrightarrow> HasArrayNode body g"
  by (auto simp add: GetArrayNode_def HasArrayNode_def list_ex_iff find_Some_iff)

text \<open>
  Claim C4. When some input's body has a node of the checked graph with a producing
  operation, \<^verbatim>\<open>BackwardGradients\<close> ends with the leaf-violation error, in the store it
  was called in, whatever the forward function and the collaborators are: the forward
  function is not run.
\<close>

theorem BackwardGradients_rejects_non_leaf:
  assumes "input \<in> set inputs"
      and "GetArrayNode (bodies s input) g = Some n"
      and "next_op_node n \<noteq> None"
  shows "BackwardGradients E func inputs grad_outputs g double_backprop s
           = (Inl (GradientCheckError InputsMustBeLeaf), s)"
proof -
  have "is_non_leaf s g input"
    using assms(2,3) by (simp add: is_non_leaf_def GetArrayNode_Some_HasArrayNode)
  then have "list_ex (is_non_leaf s g) inputs"
    using assms(1) by (auto simp add: list_ex_iff)
  then show ?thesis
    by (simp add: BackwardGradients_def bindC_def check_leaf_inputs_eq)
qed

theorem BackwardGradients_rejects_non_leaf_witness:
  "BackwardGradients ex_env ex_identity [0] None ''g'' kEnable ex_store
     = (Inl (GradientCheckError InputsMustBeLeaf), ex_store)"
  using BackwardGradients_rejects_non_leaf
    [of 0 "[0]" ex_store "''g''" "\<lparr>graph_id = ''g'', next_op_node = Some 3, grad = Some 0\<rparr>"
        ex_env ex_identity None kEnable]
  by (simp add: ex_store_def GetArrayNode_def)

lemma find_Some_holds: "find P xs = Some x \<Longrightarrow> P x \<and> x \<in> set xs"
  by (induction xs) (auto split: if_splits)

lemma identical_input_output_Some:
  assumes "i < length inputs" "j < length outputs" "inputs ! i = outputs ! j"
      "IsGradRequired s (inputs ! i) g"
  shows "\<exists>i' j'. identical_input_output s g inputs outputs = Some (i', j') \<and>
      i' < length inputs \<and> j' < length outputs \<and> inputs ! i' = outputs ! j' \<and>
      IsGradRequired s (inputs ! i') g"
proof -
  let ?P = "\<lambda>(i, j). inputs ! i = outputs ! j \<and> IsGradRequired s (inputs ! i) g"
  let ?xs = "List.product [0..<length inputs] [0..<length outputs]"
  have m: "(i, j) \<in> set ?xs" using assms by simp
  have h: "?P (i, j)" using assms by simp
  have "find ?P ?xs \<noteq> None"
    unfolding find_None_iff using m h by blast
  then obtain p where p: "find ?P ?xs = Some p" by auto
  then have "?P p" and "p \<in> set ?xs"
    using find_Some_holds [of ?P ?xs p] by blast+
  then show ?thesis
    using p by (cases p) (auto simp add: identical_input_output_def)
qed

text \<open>
  Claim C5, as amended. Suppose the call reaches the forward function (no input is a
  non-leaf) and the forward function returns outputs among which one is the same array
  body as an input that requires gradient under the graph, in the store the function
  left. Then
  \<^verbatim>\<open>BackwardGradients\<close> ends with the identical-input-output error for such a pair,
  in the store the forward function left: no gradient is seeded or cleared and the
  backward engine is not run, whatever the engine is.
\<close>

theorem BackwardGradients_rejects_identical:
  assumes "\<forall>input \<in> set inputs. \<not> is_non_leaf s g input"
      and "func inputs s = (Inr outputs, s1)"
      and "i < length inputs" and "j < length outputs"
      and "inputs ! i = outputs ! j"
      and "IsGradRequired s1 (inputs ! i) g"
  shows "\<exists>i' j'. BackwardGradients E func inputs grad_outputs g double_backprop s
           = (Inl (GradientCheckError (IdenticalInputOutput i' j')), s1) \<and>
         i' < length inputs \<and> j' < length outputs \<and> inputs ! i' = outputs ! j' \<and>
         IsGradRequired s1 (inputs ! i') g"
proof -
  have leaf: "check_leaf_inputs g inputs s = (Inr (), s)"
    using assms(1) by (simp add: check_leaf_inputs_eq list_ex_iff)
  obtain i' j' where f: "identical_input_output s1 g inputs outputs = Some (i', j')"
      and rest: "i' < length inputs" "j' < length outputs" "inputs ! i' = outputs ! j'"
        "IsGradRequired s1 (inputs ! i') g"
    using identical_input_output_Some [OF assms(3-6)] by blast
  have "BackwardGradients E func inputs grad_outputs g double_backprop s
           = (Inl (GradientCheckError (IdenticalInputOutput i' j')), s1)"
    by (simp add: BackwardGradients_def bindC_def leaf assms(2) check_identical_def f)
  then show ?thesis using rest by blast
qed

theorem BackwardGradients_rejects_identical_witness:
  "BackwardGradients ex_env ex_identity [0] None ''g'' kEnable ex_leaf_store
     = (Inl (GradientCheckError (IdenticalInputOutput 0 0)), ex_leaf_store)"
  using BackwardGradients_rejects_identical
    [of "[0]" ex_leaf_store "''g''" ex_identity "[0]" ex_leaf_store 0 0 ex_env None kEnable]
  by (simp add: ex_leaf_store_def ex_identity_def returnC_def is_non_leaf_def
      GetArrayNode_def HasArrayNode_def IsGradRequired_def)

text \<open>
  Claim C5 as stated does not hold when identity of underlying storage is the sharing of
  the data buffer: line 56 compares the array bodies. The forward function of the example
  returns a view of its input, a new body (array 1) over the buffer of the input (array
  0), and the input requires gradient under the graph; the extraction raises no error
  and returns its list of gradients.
\<close>

theorem view_output_is_accepted:
  "fst (BackwardGradients ex_env ex_view [0] None ''g'' kEnable ex_leaf_store) = Inr [None] \<and>
   fst (ex_view [0] ex_leaf_store) = Inr [1] \<and>
   data (bodies (snd (ex_view [0] ex_leaf_store)) 1) = data (bodies (snd (ex_view [0] ex_leaf_store)) 0) \<and>
   IsGradRequired (snd (ex_view [0] ex_leaf_store)) 0 ''g''"
  by (simp add: ex_view_def check_defs ex2_defs comp_defs array_defs extraction_defs)

subsection \<open>Double-backprop toggle verification\<close>

lemma set_disabled_failures:
  "set (disabled_failures s g grads) =
     {ConnectedWhenDisabled i (length grads) g | i a.
        i < length grads \<and> grads ! i = Some a \<and> IsGradRequired s a g}"
proof -
  have "\<And>i a. i < length grads \<Longrightarrow> grads ! i = Some a \<Longrightarrow> (i, Some a) \<in> set (enumerate 0 grads)"
    by (simp add: in_set_enumerate_eq)
  then show ?thesis
    by (auto simp add: disabled_failures_def split: option.splits if_splits)
      (auto simp add: in_set_enumerate_eq intro!: bexI)
qed

lemma set_enabled_failures:
  "set (enabled_failures s g grads) =
     {NotConnectedWhenEnabled i (length grads) g | i a.
        i < length grads \<and> grads ! i = Some a \<and> \<not> IsGradRequired s a g}"
proof -
  have "\<And>i a. i < length grads \<Longrightarrow> grads ! i = Some a \<Longrightarrow> (i, Some a) \<in> set (enumerate 0 grads)"
    by (simp add: in_set_enumerate_eq)
  then show ?thesis
    by (auto simp add: enabled_failures_def split: option.splits if_splits)
      (auto simp add: in_set_enumerate_eq intro!: bexI)
qed

text \<open>
  Claim C2. When both extraction runs of \<^verbatim>\<open>CheckDoubleBackpropOption\<close> return (each on
  a fresh isolation of the inputs, on the squared wrapper of the function, the first with
  double backprop disabled and the second with it enabled), the report holds exactly one
  entry for every gradient of the disabled run that requires gradient under the graph and
  one for every gradient of the enabled run that does not; the entries of both runs are
  accumulated in one report, and the call ends with a single check error carrying the
  report if and only if the report is not empty, and returns otherwise.
\<close>

theorem CheckDoubleBackpropOption_report:
  assumes "DisconnectInputArrays inputs s = (d1, s1)"
      and "BackwardGradients E (nonlinear_func E func) d1 None g kDisable s1 = (Inr grads1, s2)"
      and "DisconnectInputArrays inputs s2 = (d2, s3)"
      and "BackwardGradients E (nonlinear_func E func) d2 None g kEnable s3 = (Inr grads2, s4)"
  shows "CheckDoubleBackpropOption E func inputs g s =
           (if disabled_failures s2 g grads1 @ enabled_failures s4 g grads2 = [] then Inr ()
            else Inl (GradientCheckError
                   (ToggleReport (disabled_failures s2 g grads1 @ enabled_failures s4 g grads2))), s4) \<and>
         set (disabled_failures s2 g grads1 @ enabled_failures s4 g grads2) =
           {ConnectedWhenDisabled i (length grads1) g | i a.
              i < length grads1 \<and> grads1 ! i = Some a \<and> IsGradRequired s2 a g} \<union>
           {NotConnectedWhenEnabled i (length grads2) g | i a.
              i < length grads2 \<and> grads2 ! i = Some a \<and> \<not> IsGradRequired s4 a g}"
  using assms
  by (simp add: CheckDoubleBackpropOption_def bindC_def liftC_def getC_def throwC_def returnC_def
      set_disabled_failures set_enabled_failures)

theorem CheckDoubleBackpropOption_report_witness:
  "fst (CheckDoubleBackpropOption ex2_broken_env ex2_func [0] ''g'' ex2_store)
     = Inl (GradientCheckError (ToggleReport [ConnectedWhenDisabled 0 1 ''g'']))"
proof -
  define s1 where "s1 = snd (DisconnectInputArrays [0] ex2_store)"
  define s2 where "s2 = snd (BackwardGradients ex2_broken_env
      (nonlinear_func ex2_broken_env ex2_func) [6] None ''g'' kDisable s1)"
  define s3 where "s3 = snd (DisconnectInputArrays [0] s2)"
  define s4 where "s4 = snd (BackwardGradients ex2_broken_env
      (nonlinear_func ex2_broken_env ex2_func) [7] None ''g'' kEnable s3)"
  have a1: "DisconnectInputArrays [0] ex2_store = ([6], s1)"
    by (simp add: s1_def ex2_defs array_defs)
  have a2: "BackwardGradients ex2_broken_env (nonlinear_func ex2_broken_env ex2_func) [6] None
      ''g'' kDisable s1 = (Inr [Some 4], s2)"
    by (simp add: prod_eq_iff s2_def s1_def ex2_defs comp_defs array_defs extraction_defs)
  have a3: "DisconnectInputArrays [0] s2 = ([7], s3)"
    by (simp add: s3_def s2_def s1_def ex2_defs comp_defs array_defs extraction_defs)
  have a4: "BackwardGradients ex2_broken_env (nonlinear_func ex2_broken_env ex2_func) [7] None
      ''g'' kEnable s3 = (Inr [Some 4], s4)"
    by (simp add: prod_eq_iff s4_def s3_def s2_def s1_def ex2_defs comp_defs array_defs extraction_defs)
  have f1: "disabled_failures s2 ''g'' [Some 4] = [ConnectedWhenDisabled 0 1 ''g'']"
    by (simp add: disabled_failures_def s2_def s1_def ex2_defs comp_defs array_defs extraction_defs)
  have f2: "enabled_failures s4 ''g'' [Some 4] = []"
    by (simp add: enabled_failures_def s4_def s3_def s2_def s1_def ex2_defs comp_defs array_defs
        extraction_defs)
  show ?thesis
    using CheckDoubleBackpropOption_report [OF a1 a2 a3 a4] by (simp add: f1 f2)
qed

subsection \<open>First-order gradient check\<close>


lemma BackwardGradients_length:
  "BackwardGradients E func inputs grad_outputs g opt s = (Inr grads, s') \<Longrightarrow>
   length grads = length inputs"
  by (auto simp add: BackwardGradients_def bindC_def harvest_grads_def getC_def
      split: prod.splits sum.splits)

lemma check_grad_shapes_ok:
  "list_all2 (gradient_fits s) inputs grads \<Longrightarrow> check_grad_shapes i n inputs grads s = (Inr (), s)"
proof (induction inputs grads arbitrary: i rule: list_all2_induct)
  case Nil
  show ?case by simp
next
  case (Cons input inputs gr grads)
  then show ?case by (cases gr) (simp_all add: gradient_fits_def)
qed

lemma assert_same_shapes_ok:
  "list_all2 (\<lambda>input ng. gradient_fits s input (Some ng)) inputs numerical_grads \<Longrightarrow>
   assert_same_shapes inputs numerical_grads s = (Inr (), s)"
  by (induction inputs numerical_grads rule: list_all2_induct) (simp_all add: gradient_fits_def)

lemma map_fst_filter_enumerate:
  "map fst (filter (\<lambda>(i, x). Q i x) (enumerate n xs))
     = filter (\<lambda>i. Q i (xs ! (i - n))) [n..<n + length xs]"
proof (induction xs arbitrary: n)
  case Nil
  show ?case by simp
next
  case (Cons x xs)
  have "filter (\<lambda>i. Q i ((x # xs) ! (i - n))) [Suc n..<Suc n + length xs]
      = filter (\<lambda>i. Q i (xs ! (i - Suc n))) [Suc n..<Suc n + length xs]"
  proof (rule filter_cong [OF refl])
    fix i assume "i \<in> set [Suc n..<Suc n + length xs]"
    then have "Suc n \<le> i" by (simp del: upt_Suc)
    then have "i - n = Suc (i - Suc n)" by arith
    then show "Q i ((x # xs) ! (i - n)) = Q i (xs ! (i - Suc n))" by simp
  qed
  then show ?case
    using Cons.IH [of "Suc n"] by (simp add: upt_conv_Cons del: upt_Suc)
qed

lemma failed_input_indices_eq:
  assumes "length numerical_grads = length backward_grads"
  shows "failed_input_indices s backward_grads numerical_grads atol rtol =
     filter (\<lambda>i. case backward_grads ! i of None \<Rightarrow> False
                 | Some a \<Rightarrow> \<not> AllClose s a (numerical_grads ! i) atol rtol)
       [0..<length backward_grads]"
proof -
  have "filter (\<lambda>i. (case zip backward_grads numerical_grads ! (i - 0) of
                      (bg, ng) \<Rightarrow> (case bg of None \<Rightarrow> False | Some a \<Rightarrow> \<not> AllClose s a ng atol rtol)))
          [0..<0 + length (zip backward_grads numerical_grads)]
      = filter (\<lambda>i. case backward_grads ! i of None \<Rightarrow> False
                 | Some a \<Rightarrow> \<not> AllClose s a (numerical_grads ! i) atol rtol)
          [0..<length backward_grads]"
    using assms by (intro filter_cong) auto
  then show ?thesis
    unfolding failed_input_indices_def
    using map_fst_filter_enumerate
      [of "\<lambda>i (bg, ng). (case bg of None \<Rightarrow> False | Some a \<Rightarrow> \<not> AllClose s a ng atol rtol)"
          0 "zip backward_grads numerical_grads"]
    by (simp add: split_def)
qed

text \<open>
  Claim C1, as amended. Take a call of \<^verbatim>\<open>CheckBackwardComputation\<close> on a non-empty
  input list, with an element of \<^verbatim>\<open>eps\<close> for every input, in which the extraction
  on the isolated inputs returns gradients, every gradient it produced has the shape and
  dtype of its input, and the estimator returns numerical gradients that pass the
  assertions. Then the failed indices are exactly the
  indices, in ascending order, whose analytic gradient exists and is not close to the
  numerical gradient of the same index (\<open>\<bar>a - n\<bar> \<le> atol + rtol * \<bar>n\<bar>\<close> fails for some
  element); an input without analytic gradient is skipped. The call returns when no index
  failed, and otherwise ends with one check error that carries all failed indices.
\<close>

theorem CheckBackwardComputation_comparison:
  assumes "inputs = front # rest"
      and "DisconnectInputArrays inputs s = (inputs_disconnected, s1)"
      and "BackwardGradients E func inputs_disconnected (Some grad_outputs)
             (GetArrayGraphId E s front opt_graph_id) kDisable s1 = (Inr backward_grads, s2)"
      and "list_all2 (gradient_fits s2) inputs backward_grads"
      and "CalculateNumericalGradient E func inputs grad_outputs eps s2 = (Inr numerical_grads, s3)"
      and "list_all2 (\<lambda>input ng. gradient_fits s3 input (Some ng)) inputs numerical_grads"
      and "length inputs \<le> length eps"
  shows "CheckBackwardComputation E func inputs grad_outputs eps atol rtol opt_graph_id s =
           (if failed_input_indices s3 backward_grads numerical_grads atol rtol = [] then Inr ()
            else Inl (GradientCheckError
                   (NumericalError (length inputs)
                      (failed_input_indices s3 backward_grads numerical_grads atol rtol)
                      (GetArrayGraphId E s front opt_graph_id) atol rtol)), s3) \<and>
         failed_input_indices s3 backward_grads numerical_grads atol rtol =
           filter (\<lambda>i. case backward_grads ! i of None \<Rightarrow> False
                       | Some a \<Rightarrow> \<not> AllClose s3 a (numerical_grads ! i) atol rtol)
             [0..<length inputs]"
proof -
  have len_b: "length backward_grads = length inputs"
    using assms(4) by (simp add: list_all2_lengthD)
  have len_n: "length numerical_grads = length inputs"
    using assms(6) by (simp add: list_all2_lengthD)
  have shapes: "check_grad_shapes 0 (length inputs) inputs backward_grads s2 = (Inr (), s2)"
    using assms(4) by (rule check_grad_shapes_ok)
  have asserts: "assert_numerical_grads inputs numerical_grads s3 = (Inr (), s3)"
    using assert_same_shapes_ok [OF assms(6)] len_n by (simp add: assert_numerical_grads_def)
  have run: "CheckBackwardComputation E func inputs grad_outputs eps atol rtol opt_graph_id s =
      compare_grads (length inputs) (GetArrayGraphId E s front opt_graph_id) backward_grads
        numerical_grads eps atol rtol s3"
    using assms(2,3,5) shapes asserts len_b
    by (simp add: CheckBackwardComputation_def assms(1) bindC_def liftC_def getC_def)
  have idx: "failed_input_indices s3 backward_grads numerical_grads atol rtol =
           filter (\<lambda>i. case backward_grads ! i of None \<Rightarrow> False
                       | Some a \<Rightarrow> \<not> AllClose s3 a (numerical_grads ! i) atol rtol)
             [0..<length inputs]"
    using failed_input_indices_eq [of numerical_grads backward_grads s3 atol rtol] len_b len_n
    by simp
  have defined: "\<not> eps_read_undefined eps
      (failed_input_indices s3 backward_grads numerical_grads atol rtol)"
    using assms(7) unfolding idx by (auto simp add: eps_read_undefined_def list_ex_iff)
  show ?thesis
    unfolding run using idx defined
    by (simp add: compare_grads_def bindC_def getC_def throwC_def returnC_def)
qed


theorem CheckBackwardComputation_comparison_witness:
  "fst (CheckBackwardComputation ex2_env ex2_func [0] [2] [2] 1 0 (Some ''g'') ex2_store)
     = Inl (GradientCheckError (NumericalError 1 [0] ''g'' 1 0))"
proof -
  define s1 where "s1 = snd (DisconnectInputArrays [0] ex2_store)"
  define s2 where "s2 = snd (BackwardGradients ex2_env ex2_func [6] (Some [2]) ''g'' kDisable s1)"
  have g: "GetArrayGraphId ex2_env ex2_store 0 (Some ''g'') = ''g''"
    by (simp add: GetArrayGraphId_def)
  have a1: "DisconnectInputArrays [0] ex2_store = ([6], s1)"
    by (simp add: s1_def ex2_defs array_defs)
  have a2: "BackwardGradients ex2_env ex2_func [6] (Some [2])
      (GetArrayGraphId ex2_env ex2_store 0 (Some ''g'')) kDisable s1 = (Inr [Some 3], s2)"
    unfolding g
    by (simp add: prod_eq_iff s2_def s1_def ex2_defs comp_defs array_defs extraction_defs)
  have a3: "list_all2 (gradient_fits s2) [0] [Some 3]"
    by (simp add: gradient_fits_def s2_def s1_def ex2_defs comp_defs array_defs extraction_defs)
  have a4: "CalculateNumericalGradient ex2_env ex2_func [0] [2] [2] s2 = (Inr [5], s2)"
    by (simp add: ex2_env_def returnC_def)
  have a5: "list_all2 (\<lambda>input ng. gradient_fits s2 input (Some ng)) [0] [5]"
    by (simp add: gradient_fits_def s2_def s1_def ex2_defs comp_defs array_defs extraction_defs)
  have a6: "length [0::nat] \<le> length [2::nat]"
    by simp
  have f: "failed_input_indices s2 [Some 3] [5] 1 0 = [0]"
    by (simp add: failed_input_indices_def AllClose_def s2_def s1_def ex2_defs comp_defs
        array_defs extraction_defs)
  show ?thesis
    using CheckBackwardComputation_comparison [OF refl a1 a2 a3 a4 a5 a6, of 1 0, THEN conjunct1]
    by (simp add: f g)
qed

text \<open>
  Claim C1 as stated does not hold of every call: a check error is also raised when no
  analytic gradient fails the comparison. In the first call the extraction returns a
  gradient for the input, array 3, which has the very elements of the numerical gradient,
  array 5, and so is close to it at tolerance 0; its dtype is not the input's, and the
  check raises the dtype error. In the second call the forward function returns no
  output while one seed gradient is supplied, and the check raises the size error of the
  extraction.
\<close>

theorem CheckBackwardComputation_raises_without_comparison:
  "fst (CheckBackwardComputation ex2_env ex2_func [0] [2] [] 0 0 (Some ''g'') ex5_store)
     = Inl (GradientCheckError (GradientDtype 0 1 2 1)) \<and>
   fst (BackwardGradients ex2_env ex2_func (fst (DisconnectInputArrays [0] ex5_store)) (Some [2])
          ''g'' kDisable (snd (DisconnectInputArrays [0] ex5_store))) = Inr [Some 3] \<and>
   AllClose (snd (CheckBackwardComputation ex2_env ex2_func [0] [2] [] 0 0 (Some ''g'') ex5_store))
     3 5 0 0 \<and>
   fst (CheckBackwardComputation ex_env ex_no_outputs [0] [0] [] 0 0 (Some ''g'') ex_leaf_store)
     = Inl (GradientCheckError (GradOutputsSize 0 1))"
  by (simp add: ex5_store_def check_defs ex2_defs comp_defs array_defs extraction_defs)

subsection \<open>Second-order gradient check\<close>

lemma find_enumerate_None:
  "find (\<lambda>(i, a). P a) (enumerate n xs) = None \<longleftrightarrow> \<not> list_ex P xs"
  by (induction xs arbitrary: n) simp_all

lemma first_not_required_None:
  "first_not_required s g arrays = None \<longleftrightarrow> \<not> list_ex (\<lambda>a. \<not> IsGradRequired s a g) arrays"
  by (simp add: first_not_required_def find_enumerate_None)

lemma check_inputs_require_grad_cases:
  "check_inputs_require_grad g inputs s =
     (if list_ex (\<lambda>a. \<not> IsGradRequired s a g) inputs
      then (Inl (XchainerError (InputNotDifferentiable
              (the (first_not_required s g inputs)) (length inputs) g)), s)
      else (Inr (), s))"
  using first_not_required_None [of s g inputs]
  by (auto simp add: check_inputs_require_grad_def split: option.splits)

lemma check_grad_outputs_require_grad_cases:
  "check_grad_outputs_require_grad g grad_outputs s =
     (if list_ex (\<lambda>a. \<not> IsGradRequired s a g) grad_outputs
      then (Inl (XchainerError (OutputGradNotDifferentiable
              (the (first_not_required s g grad_outputs)) (length grad_outputs) g)), s)
      else (Inr (), s))"
  using first_not_required_None [of s g grad_outputs]
  by (auto simp add: check_grad_outputs_require_grad_def split: option.splits)

lemma Impl_precondition:
  assumes "inputs = front # rest"
      and "length grad_grad_inputs \<noteq> length inputs \<or>
           list_ex (\<lambda>a. \<not> IsGradRequired s a (GetArrayGraphId E s front opt_graph_id)) inputs \<or>
           list_ex (\<lambda>a. \<not> IsGradRequired s a (GetArrayGraphId E s front opt_graph_id)) grad_outputs"
  shows "\<exists>m. CheckDoubleBackwardComputationImpl E func inputs grad_outputs grad_grad_inputs
           eps atol rtol opt_graph_id s = (Inl (XchainerError m), s)"
  using assms(2) unfolding assms(1)
  by (auto simp add: CheckDoubleBackwardComputationImpl_def bindC_def getC_def throwC_def
      check_inputs_require_grad_cases check_grad_outputs_require_grad_cases
      simp del: list_ex_Cons_iff)

lemma set_missing_indices:
  "set (missing_indices grads) = {i. i < length grads \<and> grads ! i = None}"
proof -
  have "\<And>i. i < length grads \<Longrightarrow> grads ! i = None \<Longrightarrow> (i, None) \<in> set (enumerate 0 grads)"
    by (simp add: in_set_enumerate_eq)
  then show ?thesis
    by (force simp add: missing_indices_def in_set_enumerate_eq)
qed

lemma Impl_missing:
  assumes "inputs = front # rest"
      and "length grad_grad_inputs = length inputs"
      and "\<not> list_ex (\<lambda>a. \<not> IsGradRequired s a (GetArrayGraphId E s front opt_graph_id)) (inputs @ grad_outputs)"
      and "CalculateNumericalGradient E
             (first_order_grad_func E func (length inputs) (GetArrayGraphId E s front opt_graph_id))
             (inputs @ grad_outputs) grad_grad_inputs eps s = (Inr numerical_grads, s1)"
      and "length numerical_grads = length inputs + length grad_outputs"
      and "BackwardGradients E
             (first_order_grad_func E func (length inputs) (GetArrayGraphId E s front opt_graph_id))
             (inputs @ grad_outputs) (Some grad_grad_inputs)
             (GetArrayGraphId E s front opt_graph_id) kEnable s1 = (Inr backward_grads, s2)"
      and "i < length backward_grads" and "backward_grads ! i = None"
  shows "CheckDoubleBackwardComputationImpl E func inputs grad_outputs grad_grad_inputs
           eps atol rtol opt_graph_id s =
         (Inl (GradientCheckError (SecondOrderMissing (missing_indices backward_grads)
            (length inputs) (length grad_outputs) (GetArrayGraphId E s front opt_graph_id))), s2)"
proof -
  have len: "length backward_grads = length inputs + length grad_outputs"
    using BackwardGradients_length [OF assms(6)] by simp
  have "i \<in> set (missing_indices backward_grads)"
    using assms(7,8) by (simp add: set_missing_indices)
  then have ne: "missing_indices backward_grads \<noteq> []" by auto
  have req: "\<not> list_ex (\<lambda>a. \<not> IsGradRequired s a (GetArrayGraphId E s front opt_graph_id)) inputs"
      "\<not> list_ex (\<lambda>a. \<not> IsGradRequired s a (GetArrayGraphId E s front opt_graph_id)) grad_outputs"
    using assms(3) by simp_all
  show ?thesis
    using assms(2,4,5,6) len ne req unfolding assms(1)
    by (simp add: CheckDoubleBackwardComputationImpl_def bindC_def getC_def throwC_def
        check_inputs_require_grad_cases check_grad_outputs_require_grad_cases
        compare_second_order_def del: list_ex_Cons_iff)
qed

text \<open>
  Claim C3. Take a call of \<^verbatim>\<open>CheckDoubleBackwardComputationImpl\<close> on a non-empty input
  list. First, when some input or some first-order seed gradient does not require
  gradient under the graph, the call ends with a precondition error in the store it was
  called in, whatever the function, the estimator and the backward engine are: nothing
  has been computed. Second, when the preconditions hold and the estimator and the
  extraction over the combined vector (inputs followed by seed gradients) have returned,
  a missing gradient at any index of the combined vector ends the call with the check
  error that lists every index whose gradient is missing: no element is skipped.
\<close>

theorem CheckDoubleBackwardComputationImpl_strict:
  assumes "inputs = front # rest"
  shows "(list_ex (\<lambda>a. \<not> IsGradRequired s a (GetArrayGraphId E s front opt_graph_id))
            (inputs @ grad_outputs) \<longrightarrow>
          (\<exists>m. CheckDoubleBackwardComputationImpl E func inputs grad_outputs grad_grad_inputs
                 eps atol rtol opt_graph_id s = (Inl (XchainerError m), s))) \<and>
         (length grad_grad_inputs = length inputs \<and>
          \<not> list_ex (\<lambda>a. \<not> IsGradRequired s a (GetArrayGraphId E s front opt_graph_id))
              (inputs @ grad_outputs) \<and>
          CalculateNumericalGradient E
            (first_order_grad_func E func (length inputs) (GetArrayGraphId E s front opt_graph_id))
            (inputs @ grad_outputs) grad_grad_inputs eps s = (Inr numerical_grads, s1) \<and>
          length numerical_grads = length inputs + length grad_outputs \<and>
          BackwardGradients E
            (first_order_grad_func E func (length inputs) (GetArrayGraphId E s front opt_graph_id))
            (inputs @ grad_outputs) (Some grad_grad_inputs)
            (GetArrayGraphId E s front opt_graph_id) kEnable s1 = (Inr backward_grads, s2) \<and>
          i < length backward_grads \<and> backward_grads ! i = None \<longrightarrow>
          CheckDoubleBackwardComputationImpl E func inputs grad_outputs grad_grad_inputs
            eps atol rtol opt_graph_id s =
          (Inl (GradientCheckError (SecondOrderMissing (missing_indices backward_grads)
             (length inputs) (length grad_outputs) (GetArrayGraphId E s front opt_graph_id))), s2) \<and>
          set (missing_indices backward_grads) = {k. k < length backward_grads \<and> backward_grads ! k = None})"
proof (intro conjI impI)
  assume "list_ex (\<lambda>a. \<not> IsGradRequired s a (GetArrayGraphId E s front opt_graph_id))
            (inputs @ grad_outputs)"
  then show "\<exists>m. CheckDoubleBackwardComputationImpl E func inputs grad_outputs grad_grad_inputs
                 eps atol rtol opt_graph_id s = (Inl (XchainerError m), s)"
    using Impl_precondition [OF assms, of grad_grad_inputs s E opt_graph_id grad_outputs]
    by simp
next
  assume h: "length grad_grad_inputs = length inputs \<and>
          \<not> list_ex (\<lambda>a. \<not> IsGradRequired s a (GetArrayGraphId E s front opt_graph_id))
              (inputs @ grad_outputs) \<and>
          CalculateNumericalGradient E
            (first_order_grad_func E func (length inputs) (GetArrayGraphId E s front opt_graph_id))
            (inputs @ grad_outputs) grad_grad_inputs eps s = (Inr numerical_grads, s1) \<and>
          length numerical_grads = length inputs + length grad_outputs \<and>
          BackwardGradients E
            (first_order_grad_func E func (length inputs) (GetArrayGraphId E s front opt_graph_id))
            (inputs @ grad_outputs) (Some grad_grad_inputs)
            (GetArrayGraphId E s front opt_graph_id) kEnable s1 = (Inr backward_grads, s2) \<and>
          i < length backward_grads \<and> backward_grads ! i = None"
  then show "CheckDoubleBackwardComputationImpl E func inputs grad_outputs grad_grad_inputs
            eps atol rtol opt_graph_id s =
          (Inl (GradientCheckError (SecondOrderMissing (missing_indices backward_grads)
             (length inputs) (length grad_outputs) (GetArrayGraphId E s front opt_graph_id))), s2)"
    using Impl_missing [OF assms, of grad_grad_inputs s E opt_graph_id grad_outputs func eps
        numerical_grads s1 backward_grads s2 i atol rtol]
    by blast
next
  show "set (missing_indices backward_grads) = {k. k < length backward_grads \<and> backward_grads ! k = None}"
    by (rule set_missing_indices)
qed

lemma ex3_missing_run:
  "BackwardGradients ex3_env (first_order_grad_func ex3_env ex_no_outputs 1 ''g'') [0] (Some [2])
     ''g'' kEnable ex2_store
   = (Inr [None], snd (BackwardGradients ex3_env (first_order_grad_func ex3_env ex_no_outputs 1 ''g'')
        [0] (Some [2]) ''g'' kEnable ex2_store))"
  by (simp add: prod_eq_iff ex3_env_def ex_no_outputs_def ex2_defs comp_defs array_defs
      extraction_defs second_order_defs)

theorem CheckDoubleBackwardComputationImpl_strict_witness:
  "fst (CheckDoubleBackwardComputationImpl ex_env ex_identity [0] [] [0] [] 0 0 (Some ''h'') ex_leaf_store)
     = Inl (XchainerError (InputNotDifferentiable 0 1 ''h'')) \<and>
   fst (CheckDoubleBackwardComputationImpl ex3_env ex_no_outputs [0] [] [2] [] 0 0 (Some ''g'') ex2_store)
     = Inl (GradientCheckError (SecondOrderMissing [0] 1 0 ''g''))"
proof -
  have p1: "list_ex (\<lambda>a. \<not> IsGradRequired ex_leaf_store a (GetArrayGraphId ex_env ex_leaf_store 0 (Some ''h'')))
      ([0] @ [])"
    by (simp add: GetArrayGraphId_def IsGradRequired_def HasArrayNode_def ex_leaf_store_def)
  have e1: "\<And>m. CheckDoubleBackwardComputationImpl ex_env ex_identity [0] [] [0] [] 0 0 (Some ''h'')
      ex_leaf_store = (Inl (XchainerError m), ex_leaf_store) \<Longrightarrow> m = InputNotDifferentiable 0 1 ''h''"
    by (simp add: ex_leaf_store_def ex_env_def ex_body_def comp_defs array_defs second_order_defs)
  have c1: "fst (CheckDoubleBackwardComputationImpl ex_env ex_identity [0] [] [0] [] 0 0 (Some ''h'') ex_leaf_store)
     = Inl (XchainerError (InputNotDifferentiable 0 1 ''h''))"
    using CheckDoubleBackwardComputationImpl_strict [OF refl, THEN conjunct1, rule_format, OF p1,
        of ex_identity "[0]" "[]" 0 0] e1
    by auto
  have g: "GetArrayGraphId ex3_env ex2_store 0 (Some ''g'') = ''g''"
    by (simp add: GetArrayGraphId_def)
  have p2: "\<not> list_ex (\<lambda>a. \<not> IsGradRequired ex2_store a ''g'') ([0] @ [])"
    by (simp add: IsGradRequired_def HasArrayNode_def ex2_store_def)
  have n2: "CalculateNumericalGradient ex3_env (first_order_grad_func ex3_env ex_no_outputs 1 ''g'')
      ([0] @ []) [2] [] ex2_store = (Inr [5], ex2_store)"
    by (simp add: ex3_env_def ex2_env_def returnC_def)
  have c2: "fst (CheckDoubleBackwardComputationImpl ex3_env ex_no_outputs [0] [] [2] [] 0 0 (Some ''g'') ex2_store)
     = Inl (GradientCheckError (SecondOrderMissing [0] 1 0 ''g''))"
    using CheckDoubleBackwardComputationImpl_strict [OF refl, THEN conjunct2, rule_format,
        of "[2]" 0 "[]" ex2_store ex3_env "Some ''g''" "[]" ex_no_outputs "[]" "[5]" ex2_store
        "[None]" _ 0 0 0] p2 n2 ex3_missing_run
    by (simp add: g missing_indices_def)
  show ?thesis using c1 c2 by simp
qed

subsection \<open>The classes of the raised errors\<close>

lemma BackwardGradients_leaf_error:
  "list_ex (is_non_leaf s g) inputs \<Longrightarrow>
   BackwardGradients E func inputs grad_outputs g opt s = (Inl (GradientCheckError InputsMustBeLeaf), s)"
  by (simp add: BackwardGradients_def bindC_def check_leaf_inputs_eq)

lemma BackwardGradients_identical_error:
  "\<not> list_ex (is_non_leaf s g) inputs \<Longrightarrow> func inputs s = (Inr outputs, s1) \<Longrightarrow>
   identical_input_output s1 g inputs outputs = Some (i, j) \<Longrightarrow>
   BackwardGradients E func inputs grad_outputs g opt s
     = (Inl (GradientCheckError (IdenticalInputOutput i j)), s1)"
  by (simp add: BackwardGradients_def bindC_def check_leaf_inputs_eq check_identical_def)

lemma BackwardGradients_size_error:
  "\<not> list_ex (is_non_leaf s g) inputs \<Longrightarrow> func inputs s = (Inr outputs, s1) \<Longrightarrow>
   identical_input_output s1 g inputs outputs = None \<Longrightarrow> length outputs \<noteq> length seeds \<Longrightarrow>
   BackwardGradients E func inputs (Some seeds) g opt s
     = (Inl (GradientCheckError (GradOutputsSize (length outputs) (length seeds))), s1)"
  by (simp add: BackwardGradients_def bindC_def check_leaf_inputs_eq check_identical_def
      seed_outputs_def throwC_def)

lemma failed_input_indices_bound:
  "i \<in> set (failed_input_indices s backward_grads numerical_grads atol rtol) \<Longrightarrow>
   i < length backward_grads"
  by (auto simp add: failed_input_indices_def in_set_enumerate_eq)

lemma eps_read_defined:
  "length backward_grads \<le> length eps \<Longrightarrow>
   \<not> eps_read_undefined eps (failed_input_indices s backward_grads numerical_grads atol rtol)"
  using failed_input_indices_bound [of _ s backward_grads numerical_grads atol rtol]
  by (fastforce simp add: eps_read_undefined_def list_ex_iff)

lemma compare_grads_class:
  "length backward_grads \<le> length eps \<Longrightarrow>
   (\<exists>m. fst (compare_grads n g backward_grads numerical_grads eps atol rtol s)
        = Inl (GradientCheckError m)) \<or>
   fst (compare_grads n g backward_grads numerical_grads eps atol rtol s) = Inr ()"
  using eps_read_defined [of backward_grads eps s numerical_grads atol rtol]
  by (simp add: compare_grads_def bindC_def getC_def throwC_def returnC_def)

lemma compare_second_order_class:
  "length backward_grads \<le> length eps \<Longrightarrow>
   (\<exists>m. fst (compare_second_order nin nout g backward_grads numerical_grads eps atol rtol s)
        = Inl (GradientCheckError m)) \<or>
   fst (compare_second_order nin nout g backward_grads numerical_grads eps atol rtol s) = Inr ()"
  using eps_read_defined [of backward_grads eps s numerical_grads atol rtol]
  by (simp add: compare_second_order_def bindC_def getC_def throwC_def returnC_def)

lemma CheckAllArrayBodiesFreed_class:
  "(\<exists>m. fst (CheckAllArrayBodiesFreed E s) = Inl (GradientCheckError m)) \<or>
   fst (CheckAllArrayBodiesFreed E s) = Inr ()"
  by (simp add: CheckAllArrayBodiesFreed_def split: prod.splits)

lemma CheckDoubleBackpropOption_class:
  "DisconnectInputArrays inputs s = (d1, sa) \<Longrightarrow>
   BackwardGradients E (nonlinear_func E func) d1 None g kDisable sa = (Inr grads1, sb) \<Longrightarrow>
   DisconnectInputArrays inputs sb = (d2, sc) \<Longrightarrow>
   BackwardGradients E (nonlinear_func E func) d2 None g kEnable sc = (Inr grads2, sd) \<Longrightarrow>
   (\<exists>m. fst (CheckDoubleBackpropOption E func inputs g s) = Inl (GradientCheckError m)) \<or>
   fst (CheckDoubleBackpropOption E func inputs g s) = Inr ()"
  by (simp add: CheckDoubleBackpropOption_def bindC_def liftC_def getC_def throwC_def returnC_def)

text \<open>
  Claim C8, as amended. The three precondition violations that
  \<^verbatim>\<open>BackwardGradients\<close> detects (an input that is not a leaf, an output identical to an
  input that requires gradient, a number of seed gradients different from the number of
  outputs) are raised as \<^verbatim>\<open>GradientCheckError\<close>, the class in which the comparison of
  gradients, the second-order comparison with its missing gradients (both with an
  element of \<^verbatim>\<open>eps\<close> for every gradient), the leak assertion and the toggle
  verification raise their failures. Only the preconditions of the
  second-order check (the number of second-order seeds, and the gradient requirement of
  the inputs and of the seed gradients) are raised in the other class,
  \<^verbatim>\<open>XchainerError\<close>.
\<close>

theorem error_classes:
  "(list_ex (is_non_leaf s g) inputs \<longrightarrow>
      BackwardGradients E func inputs grad_outputs g opt s
        = (Inl (GradientCheckError InputsMustBeLeaf), s)) \<and>
   (\<not> list_ex (is_non_leaf s g) inputs \<and> func inputs s = (Inr outputs, s1) \<and>
    identical_input_output s1 g inputs outputs = Some (i, j) \<longrightarrow>
      BackwardGradients E func inputs grad_outputs g opt s
        = (Inl (GradientCheckError (IdenticalInputOutput i j)), s1)) \<and>
   (\<not> list_ex (is_non_leaf s g) inputs \<and> func inputs s = (Inr outputs, s1) \<and>
    identical_input_output s1 g inputs outputs = None \<and> length outputs \<noteq> length seeds \<longrightarrow>
      BackwardGradients E func inputs (Some seeds) g opt s
        = (Inl (GradientCheckError (GradOutputsSize (length outputs) (length seeds))), s1)) \<and>
   (length grad_grad_inputs \<noteq> length (front # rest) \<or>
    list_ex (\<lambda>a. \<not> IsGradRequired s a (GetArrayGraphId E s front opt_graph_id)) (front # rest) \<or>
    list_ex (\<lambda>a. \<not> IsGradRequired s a (GetArrayGraphId E s front opt_graph_id)) seeds \<longrightarrow>
      (\<exists>m. CheckDoubleBackwardComputationImpl E func (front # rest) seeds grad_grad_inputs
              eps atol rtol opt_graph_id s = (Inl (XchainerError m), s))) \<and>
   (length backward_grads \<le> length eps \<longrightarrow>
      (\<exists>m. fst (compare_grads n g backward_grads numerical_grads eps atol rtol s)
           = Inl (GradientCheckError m)) \<or>
      fst (compare_grads n g backward_grads numerical_grads eps atol rtol s) = Inr ()) \<and>
   (length backward_grads \<le> length eps \<longrightarrow>
      (\<exists>m. fst (compare_second_order nin nout g backward_grads numerical_grads eps atol rtol s)
           = Inl (GradientCheckError m)) \<or>
      fst (compare_second_order nin nout g backward_grads numerical_grads eps atol rtol s) = Inr ()) \<and>
   ((\<exists>m. fst (CheckAllArrayBodiesFreed E s) = Inl (GradientCheckError m)) \<or>
    fst (CheckAllArrayBodiesFreed E s) = Inr ()) \<and>
   (DisconnectInputArrays inputs s = (d1, sa) \<and>
    BackwardGradients E (nonlinear_func E func) d1 None g kDisable sa = (Inr grads1, sb) \<and>
    DisconnectInputArrays inputs sb = (d2, sc) \<and>
    BackwardGradients E (nonlinear_func E func) d2 None g kEnable sc = (Inr grads2, sd) \<longrightarrow>
      (\<exists>m. fst (CheckDoubleBackpropOption E func inputs g s) = Inl (GradientCheckError m)) \<or>
      fst (CheckDoubleBackpropOption E func inputs g s) = Inr ())"
  using BackwardGradients_leaf_error [of s g inputs E func grad_outputs opt]
    BackwardGradients_identical_error [of s g inputs func outputs s1 i j E grad_outputs opt]
    BackwardGradients_size_error [of s g inputs func outputs s1 seeds E opt]
    Impl_precondition [OF refl, of grad_grad_inputs front rest s E opt_graph_id seeds func eps atol rtol]
    compare_grads_class [of backward_grads eps n g numerical_grads atol rtol s]
    compare_second_order_class [of backward_grads eps nin nout g numerical_grads atol rtol s]
    CheckAllArrayBodiesFreed_class [of E s]
    CheckDoubleBackpropOption_class [of inputs s d1 sa E func g grads1 sb d2 sc grads2 sd]
  by blast

theorem error_classes_witness:
  "BackwardGradients ex_env ex_identity [0] None ''g'' kEnable ex_store
     = (Inl (GradientCheckError InputsMustBeLeaf), ex_store) \<and>
   BackwardGradients ex_env ex_identity [0] None ''g'' kEnable ex_leaf_store
     = (Inl (GradientCheckError (IdenticalInputOutput 0 0)), ex_leaf_store) \<and>
   BackwardGradients ex_env ex_no_outputs [0] (Some [0]) ''g'' kEnable ex_leaf_store
     = (Inl (GradientCheckError (GradOutputsSize 0 1)), ex_leaf_store) \<and>
   (\<exists>m. CheckDoubleBackwardComputationImpl ex_env ex_identity [0] [] [0] [] 0 0 (Some ''h'')
          ex_leaf_store = (Inl (XchainerError m), ex_leaf_store)) \<and>
   (\<exists>m. fst (CheckDoubleBackpropOption ex2_broken_env ex2_func [0] ''g'' ex2_store)
          = Inl (GradientCheckError m)) \<and>
   (\<exists>m. fst (compare_grads 1 ''g'' [Some 3] [5] [2] 1 0 ex2_store) = Inl (GradientCheckError m)) \<and>
   (\<exists>m. fst (compare_second_order 1 0 ''g'' [Some 3] [5] [2] 1 0 ex2_store)
          = Inl (GradientCheckError m))"
proof -
  have h1: "list_ex (is_non_leaf ex_store ''g'') [0]"
    by (simp add: is_non_leaf_def HasArrayNode_def GetArrayNode_def ex_store_def)
  have h2: "\<not> list_ex (is_non_leaf ex_leaf_store ''g'') [0] \<and>
      ex_identity [0] ex_leaf_store = (Inr [0], ex_leaf_store) \<and>
      identical_input_output ex_leaf_store ''g'' [0] [0] = Some (0, 0)"
    by (simp add: is_non_leaf_def HasArrayNode_def GetArrayNode_def IsGradRequired_def
        identical_input_output_def ex_leaf_store_def ex_identity_def returnC_def)
  have h3: "\<not> list_ex (is_non_leaf ex_leaf_store ''g'') [0] \<and>
      ex_no_outputs [0] ex_leaf_store = (Inr [], ex_leaf_store) \<and>
      identical_input_output ex_leaf_store ''g'' [0] [] = None \<and> length ([] :: Array list) \<noteq> length [0::nat]"
    by (simp add: is_non_leaf_def HasArrayNode_def GetArrayNode_def IsGradRequired_def
        identical_input_output_def ex_leaf_store_def ex_no_outputs_def returnC_def)
  have h4: "list_ex (\<lambda>a. \<not> IsGradRequired ex_leaf_store a
      (GetArrayGraphId ex_env ex_leaf_store 0 (Some ''h''))) [0]"
    by (simp add: GetArrayGraphId_def IsGradRequired_def HasArrayNode_def ex_leaf_store_def)
  have c1: "BackwardGradients ex_env ex_identity [0] None ''g'' kEnable ex_store
     = (Inl (GradientCheckError InputsMustBeLeaf), ex_store)"
    using error_classes [where func = ex_identity and inputs = "[0]" and s = ex_store,
        THEN conjunct1, rule_format, OF h1] by simp
  have c2: "BackwardGradients ex_env ex_identity [0] None ''g'' kEnable ex_leaf_store
     = (Inl (GradientCheckError (IdenticalInputOutput 0 0)), ex_leaf_store)"
    using error_classes [where func = ex_identity and inputs = "[0]" and s = ex_leaf_store,
        THEN conjunct2, THEN conjunct1, rule_format, OF h2] by simp
  have c3: "BackwardGradients ex_env ex_no_outputs [0] (Some [0]) ''g'' kEnable ex_leaf_store
     = (Inl (GradientCheckError (GradOutputsSize 0 1)), ex_leaf_store)"
    using error_classes [where func = ex_no_outputs and inputs = "[0]" and s = ex_leaf_store,
        THEN conjunct2, THEN conjunct2, THEN conjunct1, rule_format, OF h3, of ex_env kEnable]
    by simp
  have c4: "\<exists>m. CheckDoubleBackwardComputationImpl ex_env ex_identity [0] [] [0] [] 0 0 (Some ''h'')
          ex_leaf_store = (Inl (XchainerError m), ex_leaf_store)"
    using error_classes [where func = ex_identity and s = ex_leaf_store and E = ex_env
        and front = 0 and rest = "[]" and opt_graph_id = "Some ''h''" and seeds = "[]"
        and grad_grad_inputs = "[0]" and eps = "[]" and atol = 0 and rtol = 0,
        THEN conjunct2, THEN conjunct2, THEN conjunct2, THEN conjunct1,
        rule_format, OF disjI2 [OF disjI1 [OF h4]]]
    by simp
  define sa where "sa = snd (DisconnectInputArrays [0] ex2_store)"
  define sb where "sb = snd (BackwardGradients ex2_broken_env
      (nonlinear_func ex2_broken_env ex2_func) [6] None ''g'' kDisable sa)"
  define sc where "sc = snd (DisconnectInputArrays [0] sb)"
  define sd where "sd = snd (BackwardGradients ex2_broken_env
      (nonlinear_func ex2_broken_env ex2_func) [7] None ''g'' kEnable sc)"
  have h5: "DisconnectInputArrays [0] ex2_store = ([6], sa) \<and>
      BackwardGradients ex2_broken_env (nonlinear_func ex2_broken_env ex2_func) [6] None
        ''g'' kDisable sa = (Inr [Some 4], sb) \<and>
      DisconnectInputArrays [0] sb = ([7], sc) \<and>
      BackwardGradients ex2_broken_env (nonlinear_func ex2_broken_env ex2_func) [7] None
        ''g'' kEnable sc = (Inr [Some 4], sd)"
    by (simp add: prod_eq_iff sd_def sc_def sb_def sa_def ex2_defs comp_defs array_defs
        extraction_defs)
  have n5: "fst (CheckDoubleBackpropOption ex2_broken_env ex2_func [0] ''g'' ex2_store) \<noteq> Inr ()"
    by (simp add: check_defs ex2_defs comp_defs array_defs extraction_defs)
  have c5: "\<exists>m. fst (CheckDoubleBackpropOption ex2_broken_env ex2_func [0] ''g'' ex2_store)
          = Inl (GradientCheckError m)"
    using error_classes [where func = ex2_func and E = ex2_broken_env and inputs = "[0]"
        and s = ex2_store and g = "''g''",
        THEN conjunct2, THEN conjunct2, THEN conjunct2, THEN conjunct2,
        THEN conjunct2, THEN conjunct2, THEN conjunct2, rule_format, OF h5] n5
    by blast
  have h6: "length [Some (3::nat)] \<le> length [2::nat]"
    by simp
  have n6: "fst (compare_grads 1 ''g'' [Some 3] [5] [2] 1 0 ex2_store) \<noteq> Inr ()"
    by (simp add: check_defs ex2_defs comp_defs)
  have c6: "\<exists>m. fst (compare_grads 1 ''g'' [Some 3] [5] [2] 1 0 ex2_store) = Inl (GradientCheckError m)"
    using error_classes [where backward_grads = "[Some 3]" and eps = "[2]" and n = 1
        and g = "''g''" and numerical_grads = "[5]" and atol = 1 and rtol = 0 and s = ex2_store,
        THEN conjunct2, THEN conjunct2, THEN conjunct2, THEN conjunct2, THEN conjunct1,
        rule_format, OF h6] n6
    by blast
  have n7: "fst (compare_second_order 1 0 ''g'' [Some 3] [5] [2] 1 0 ex2_store) \<noteq> Inr ()"
    by (simp add: check_defs second_order_defs ex2_defs comp_defs)
  have c7: "\<exists>m. fst (compare_second_order 1 0 ''g'' [Some 3] [5] [2] 1 0 ex2_store)
      = Inl (GradientCheckError m)"
    using error_classes [where backward_grads = "[Some 3]" and eps = "[2]" and nin = 1
        and nout = 0 and g = "''g''" and numerical_grads = "[5]" and atol = 1 and rtol = 0
        and s = ex2_store,
        THEN conjunct2, THEN conjunct2, THEN conjunct2, THEN conjunct2, THEN conjunct2,
        THEN conjunct1, rule_format, OF h6] n7
    by blast
  show ?thesis using c1 c2 c3 c4 c5 c6 c7 by blast
qed

text \<open>
  Claim C8 as stated does not hold: a non-leaf input, an output identical to an input,
  and a seed-gradient count mismatch are raised in the same class as a tolerance
  violation of the first-order check.
\<close>

theorem precondition_errors_are_check_errors:
  "fst (BackwardGradients ex_env ex_identity [0] None ''g'' kEnable ex_store)
     = Inl (GradientCheckError InputsMustBeLeaf) \<and>
   fst (BackwardGradients ex_env ex_identity [0] None ''g'' kEnable ex_leaf_store)
     = Inl (GradientCheckError (IdenticalInputOutput 0 0)) \<and>
   fst (BackwardGradients ex_env ex_no_outputs [0] (Some [0]) ''g'' kEnable ex_leaf_store)
     = Inl (GradientCheckError (GradOutputsSize 0 1)) \<and>
   fst (CheckBackwardComputation ex2_env ex2_func [0] [2] [2] 1 0 (Some ''g'') ex2_store)
     = Inl (GradientCheckError (NumericalError 1 [0] ''g'' 1 0))"
  by (simp add: CheckBackwardComputation_def GetArrayGraphId_def compare_grads_def
      eps_read_undefined_def
      failed_input_indices_def AllClose_def assert_numerical_grads_def
      ex_store_def ex_leaf_store_def ex_env_def ex_identity_def ex_no_outputs_def
      ex2_defs comp_defs array_defs extraction_defs)

subsection \<open>The public entry points\<close>

lemma CheckBackward_Cons:
  "CheckBackward E func (front # rest) grad_outputs eps atol rtol opt_graph_id s =
     bindC (in_leak_scope (CheckDoubleBackpropOption E func (front # rest)
              (GetArrayGraphId E s front opt_graph_id))) (\<lambda>_.
     bindC (CheckAllArrayBodiesFreed E) (\<lambda>_.
     bindC (in_leak_scope (CheckBackwardComputation E func (front # rest) grad_outputs eps
              atol rtol opt_graph_id)) (\<lambda>_.
     CheckAllArrayBodiesFreed E))) s"
  by (simp add: CheckBackward_def bindC_def getC_def)

lemma CheckAllArrayBodiesFreed_eq:
  "CheckAllArrayBodiesFreed E s =
     (if fst (IsAllArrayBodiesFreed E s) then Inr ()
      else Inl (GradientCheckError (LeakReport (snd (IsAllArrayBodiesFreed E s)))), s)"
  by (simp add: CheckAllArrayBodiesFreed_def split: prod.splits)

text \<open>
  Claim C9. For a non-empty input list, \<^verbatim>\<open>CheckBackward\<close> first runs the toggle
  verification inside a leak detection scope of its own and then makes the leak
  assertion of that scope. An error of the toggle verification, or of its leak assertion,
  is the result of the whole call, in the store that stage left: the first-order
  comparison is not run. Only when both return does the call continue, from the store
  they left, with the first-order comparison inside a second scope followed by that
  scope's leak assertion.
\<close>

theorem CheckBackward_order:
  assumes "inputs = front # rest"
  shows
   "(in_leak_scope (CheckDoubleBackpropOption E func inputs
        (GetArrayGraphId E s front opt_graph_id)) s = (Inl e, s1) \<longrightarrow>
      CheckBackward E func inputs grad_outputs eps atol rtol opt_graph_id s = (Inl e, s1)) \<and>
    (in_leak_scope (CheckDoubleBackpropOption E func inputs
        (GetArrayGraphId E s front opt_graph_id)) s = (Inr (), s1) \<and>
     CheckAllArrayBodiesFreed E s1 = (Inl e, s1') \<longrightarrow>
      CheckBackward E func inputs grad_outputs eps atol rtol opt_graph_id s = (Inl e, s1')) \<and>
    (in_leak_scope (CheckDoubleBackpropOption E func inputs
        (GetArrayGraphId E s front opt_graph_id)) s = (Inr (), s1) \<and>
     CheckAllArrayBodiesFreed E s1 = (Inr (), s1') \<longrightarrow>
      CheckBackward E func inputs grad_outputs eps atol rtol opt_graph_id s =
        bindC (in_leak_scope (CheckBackwardComputation E func inputs grad_outputs eps
                 atol rtol opt_graph_id)) (\<lambda>_. CheckAllArrayBodiesFreed E) s1')"
  unfolding assms CheckBackward_Cons
  by (simp add: bindC_def)

theorem CheckBackward_order_witness:
  "fst (CheckBackward ex2_broken_env ex2_func [0] [2] [2] 1 0 (Some ''g'') ex2_store)
     = Inl (GradientCheckError (ToggleReport [ConnectedWhenDisabled 0 1 ''g''])) \<and>
   fst (CheckBackward ex2_leak_env ex2_func [0] [2] [2] 1 0 (Some ''g'') ex2_store)
     = Inl (GradientCheckError (LeakReport ''1 array body is alive'')) \<and>
   fst (CheckBackward ex2_env ex2_func [0] [2] [2] 1 0 (Some ''g'') ex2_store)
     = Inl (GradientCheckError (NumericalError 1 [0] ''g'' 1 0))"
proof -
  define t1 where "t1 = in_leak_scope (CheckDoubleBackpropOption ex2_broken_env ex2_func [0]
      (GetArrayGraphId ex2_broken_env ex2_store 0 (Some ''g''))) ex2_store"
  have h1: "in_leak_scope (CheckDoubleBackpropOption ex2_broken_env ex2_func [0]
      (GetArrayGraphId ex2_broken_env ex2_store 0 (Some ''g''))) ex2_store
      = (Inl (GradientCheckError (ToggleReport [ConnectedWhenDisabled 0 1 ''g''])), snd t1)"
    by (simp add: t1_def prod_eq_iff check_defs ex2_defs comp_defs array_defs extraction_defs)
  have c1: "fst (CheckBackward ex2_broken_env ex2_func [0] [2] [2] 1 0 (Some ''g'') ex2_store)
     = Inl (GradientCheckError (ToggleReport [ConnectedWhenDisabled 0 1 ''g'']))"
    using CheckBackward_order [OF refl, THEN conjunct1, rule_format, OF h1, of "[2]" "[2]" 1 0]
    by simp
  define t2 where "t2 = in_leak_scope (CheckDoubleBackpropOption ex2_leak_env ex2_func [0]
      (GetArrayGraphId ex2_leak_env ex2_store 0 (Some ''g''))) ex2_store"
  have h2: "in_leak_scope (CheckDoubleBackpropOption ex2_leak_env ex2_func [0]
      (GetArrayGraphId ex2_leak_env ex2_store 0 (Some ''g''))) ex2_store = (Inr (), snd t2) \<and>
      CheckAllArrayBodiesFreed ex2_leak_env (snd t2)
        = (Inl (GradientCheckError (LeakReport ''1 array body is alive'')), snd t2)"
    by (simp add: t2_def prod_eq_iff check_defs ex2_defs comp_defs array_defs extraction_defs)
  have c2: "fst (CheckBackward ex2_leak_env ex2_func [0] [2] [2] 1 0 (Some ''g'') ex2_store)
     = Inl (GradientCheckError (LeakReport ''1 array body is alive''))"
    using CheckBackward_order [OF refl, THEN conjunct2, THEN conjunct1, rule_format, OF h2,
        of "[2]" "[2]" 1 0]
    by simp
  define t3 where "t3 = in_leak_scope (CheckDoubleBackpropOption ex2_env ex2_func [0]
      (GetArrayGraphId ex2_env ex2_store 0 (Some ''g''))) ex2_store"
  have h3: "in_leak_scope (CheckDoubleBackpropOption ex2_env ex2_func [0]
      (GetArrayGraphId ex2_env ex2_store 0 (Some ''g''))) ex2_store = (Inr (), snd t3) \<and>
      CheckAllArrayBodiesFreed ex2_env (snd t3) = (Inr (), snd t3)"
    by (simp add: t3_def prod_eq_iff check_defs ex2_defs comp_defs array_defs extraction_defs)
  have r3: "fst (bindC (in_leak_scope (CheckBackwardComputation ex2_env ex2_func [0] [2] [2] 1 0
      (Some ''g''))) (\<lambda>_. CheckAllArrayBodiesFreed ex2_env) (snd t3))
      = Inl (GradientCheckError (NumericalError 1 [0] ''g'' 1 0))"
    by (simp add: t3_def check_defs ex2_defs comp_defs array_defs extraction_defs)
  have c3: "fst (CheckBackward ex2_env ex2_func [0] [2] [2] 1 0 (Some ''g'') ex2_store)
     = Inl (GradientCheckError (NumericalError 1 [0] ''g'' 1 0))"
    using CheckBackward_order [OF refl, THEN conjunct2, THEN conjunct2, rule_format, OF h3,
        of "[2]" "[2]" 1 0] r3
    by simp
  show ?thesis using c1 c2 c3 by simp
qed

text \<open>
  Claim C7, as amended. Each public entry point runs its checks inside a leak detection
  scope, and each scope is closed when its checks are left, by returning or by raising:
  no scope is open when an entry point called on a non-empty input list ends. When the
  checks inside a scope return without raising, the entry point then raises a check
  error carrying the tracker's report if and only if the tracker finds a recorded body
  that is not freed;
  when nothing survives, no leak error is raised (\<^verbatim>\<open>CheckBackward\<close> goes on to its
  second scope, whose leak assertion decides in the same way). When a check inside a
  scope raises, that error is the result of the entry point and the leak assertion of
  the scope is not made.
\<close>

theorem leak_assertion_after_scope:
  assumes "inputs = front # rest"
  shows
   "(in_leak_scope (CheckDoubleBackpropOption E func inputs
        (GetArrayGraphId E s front opt_graph_id)) s = (Inr (), s1) \<and>
     \<not> fst (IsAllArrayBodiesFreed E s1) \<longrightarrow>
      CheckBackward E func inputs grad_outputs eps atol rtol opt_graph_id s =
        (Inl (GradientCheckError (LeakReport (snd (IsAllArrayBodiesFreed E s1)))), s1)) \<and>
    (in_leak_scope (CheckDoubleBackpropOption E func inputs
        (GetArrayGraphId E s front opt_graph_id)) s = (Inr (), s1) \<and>
     fst (IsAllArrayBodiesFreed E s1) \<and>
     in_leak_scope (CheckBackwardComputation E func inputs grad_outputs eps atol rtol
        opt_graph_id) s1 = (Inr (), s2) \<longrightarrow>
      CheckBackward E func inputs grad_outputs eps atol rtol opt_graph_id s =
        (if fst (IsAllArrayBodiesFreed E s2) then Inr ()
         else Inl (GradientCheckError (LeakReport (snd (IsAllArrayBodiesFreed E s2)))), s2)) \<and>
    (in_leak_scope (isolated_second_order_check E func inputs grad_outputs grad_grad_inputs
        eps atol rtol opt_graph_id) s = (Inr (), s3) \<longrightarrow>
      CheckDoubleBackwardComputation E func inputs grad_outputs grad_grad_inputs eps atol rtol
        opt_graph_id s =
        (if fst (IsAllArrayBodiesFreed E s3) then Inr ()
         else Inl (GradientCheckError (LeakReport (snd (IsAllArrayBodiesFreed E s3)))), s3)) \<and>
    (in_leak_scope (CheckDoubleBackpropOption E func inputs
        (GetArrayGraphId E s front opt_graph_id)) s = (Inl e, s1) \<longrightarrow>
      CheckBackward E func inputs grad_outputs eps atol rtol opt_graph_id s = (Inl e, s1)) \<and>
    (in_leak_scope (CheckDoubleBackpropOption E func inputs
        (GetArrayGraphId E s front opt_graph_id)) s = (Inr (), s1) \<and>
     fst (IsAllArrayBodiesFreed E s1) \<and>
     in_leak_scope (CheckBackwardComputation E func inputs grad_outputs eps atol rtol
        opt_graph_id) s1 = (Inl e, s2) \<longrightarrow>
      CheckBackward E func inputs grad_outputs eps atol rtol opt_graph_id s = (Inl e, s2)) \<and>
    (in_leak_scope (isolated_second_order_check E func inputs grad_outputs grad_grad_inputs
        eps atol rtol opt_graph_id) s = (Inl e, s3) \<longrightarrow>
      CheckDoubleBackwardComputation E func inputs grad_outputs grad_grad_inputs eps atol rtol
        opt_graph_id s = (Inl e, s3)) \<and>
    leak_scope (snd (in_leak_scope (CheckDoubleBackpropOption E func inputs
        (GetArrayGraphId E s front opt_graph_id)) s)) = False \<and>
    leak_scope (snd (in_leak_scope (CheckBackwardComputation E func inputs grad_outputs eps
        atol rtol opt_graph_id) s1)) = False \<and>
    leak_scope (snd (in_leak_scope (isolated_second_order_check E func inputs grad_outputs
        grad_grad_inputs eps atol rtol opt_graph_id) s)) = False \<and>
    leak_scope (snd (CheckBackward E func inputs grad_outputs eps atol rtol opt_graph_id s))
      = False \<and>
    leak_scope (snd (CheckDoubleBackwardComputation E func inputs grad_outputs grad_grad_inputs
        eps atol rtol opt_graph_id s)) = False"
  unfolding assms CheckBackward_Cons CheckDoubleBackwardComputation_def
  by (simp add: bindC_def CheckAllArrayBodiesFreed_eq in_leak_scope_def
      split: prod.splits sum.splits)

theorem leak_assertion_after_scope_witness:
  "fst (CheckBackward ex2_leak_env ex2_func [0] [2] [2] 3 0 (Some ''g'') ex2_store)
     = Inl (GradientCheckError (LeakReport ''1 array body is alive'')) \<and>
   fst (CheckBackward ex2_env ex2_func [0] [2] [2] 3 0 (Some ''g'') ex2_store) = Inr () \<and>
   fst (CheckDoubleBackwardComputation ex4_env ex_no_outputs [0] [] [2] [2] 3 0 (Some ''g'') ex2_store)
     = Inr () \<and>
   fst (CheckDoubleBackwardComputation ex4_leak_env ex_no_outputs [0] [] [2] [2] 3 0 (Some ''g'') ex2_store)
     = Inl (GradientCheckError (LeakReport ''1 array body is alive'')) \<and>
   fst (CheckBackward ex2_broken_env ex2_func [0] [2] [2] 3 0 (Some ''g'') ex2_store)
     = Inl (GradientCheckError (ToggleReport [ConnectedWhenDisabled 0 1 ''g''])) \<and>
   fst (CheckBackward ex2_env ex2_func [0] [2] [2] 1 0 (Some ''g'') ex2_store)
     = Inl (GradientCheckError (NumericalError 1 [0] ''g'' 1 0)) \<and>
   fst (CheckDoubleBackwardComputation ex4_env ex_no_outputs [0] [] [2] [2] 1 0 (Some ''g'') ex2_store)
     = Inl (GradientCheckError (DoubleNumericalError 1 [0] ''g'' 1 0))"
proof -
  note evals = prod_eq_iff check_defs ex2_defs comp_defs array_defs extraction_defs second_order_defs
  note T = leak_assertion_after_scope [OF refl, where front = 0 and rest = "[]" and s = ex2_store
      and func = ex2_func and grad_outputs = "[2]" and eps = "[2]" and rtol = 0
      and opt_graph_id = "Some ''g''"]
  note U = leak_assertion_after_scope [OF refl, where front = 0 and rest = "[]" and s = ex2_store
      and func = ex_no_outputs and grad_outputs = "[]" and grad_grad_inputs = "[2]" and eps = "[2]"
      and rtol = 0 and opt_graph_id = "Some ''g''"]
  define t1 where "t1 = snd (in_leak_scope (CheckDoubleBackpropOption ex2_leak_env ex2_func [0]
      (GetArrayGraphId ex2_leak_env ex2_store 0 (Some ''g''))) ex2_store)"
  have h1: "in_leak_scope (CheckDoubleBackpropOption ex2_leak_env ex2_func [0]
      (GetArrayGraphId ex2_leak_env ex2_store 0 (Some ''g''))) ex2_store = (Inr (), t1) \<and>
      \<not> fst (IsAllArrayBodiesFreed ex2_leak_env t1)"
    by (simp add: t1_def evals)
  have c1: "fst (CheckBackward ex2_leak_env ex2_func [0] [2] [2] 3 0 (Some ''g'') ex2_store)
     = Inl (GradientCheckError (LeakReport ''1 array body is alive''))"
    using T [where E = ex2_leak_env and ?s1.0 = t1 and atol = 3, THEN conjunct1, rule_format, OF h1]
    by (simp add: ex2_leak_env_def)
  define t2 where "t2 = snd (in_leak_scope (CheckDoubleBackpropOption ex2_env ex2_func [0]
      (GetArrayGraphId ex2_env ex2_store 0 (Some ''g''))) ex2_store)"
  define u2 where "u2 = snd (in_leak_scope (CheckBackwardComputation ex2_env ex2_func [0] [2] [2]
      3 0 (Some ''g'')) t2)"
  have h2: "in_leak_scope (CheckDoubleBackpropOption ex2_env ex2_func [0]
      (GetArrayGraphId ex2_env ex2_store 0 (Some ''g''))) ex2_store = (Inr (), t2) \<and>
      fst (IsAllArrayBodiesFreed ex2_env t2) \<and>
      in_leak_scope (CheckBackwardComputation ex2_env ex2_func [0] [2] [2] 3 0 (Some ''g'')) t2
        = (Inr (), u2)"
    by (simp add: u2_def t2_def evals)
  have c2: "fst (CheckBackward ex2_env ex2_func [0] [2] [2] 3 0 (Some ''g'') ex2_store) = Inr ()"
    using T [where E = ex2_env and ?s1.0 = t2 and ?s2.0 = u2 and atol = 3,
        THEN conjunct2, THEN conjunct1, rule_format, OF h2]
    by (simp add: ex2_env_def)
  define t3 where "t3 = snd (in_leak_scope (isolated_second_order_check ex4_env ex_no_outputs [0] []
      [2] [2] 3 0 (Some ''g'')) ex2_store)"
  have h3: "in_leak_scope (isolated_second_order_check ex4_env ex_no_outputs [0] []
      [2] [2] 3 0 (Some ''g'')) ex2_store = (Inr (), t3)"
    by (simp add: t3_def evals)
  have c3: "fst (CheckDoubleBackwardComputation ex4_env ex_no_outputs [0] [] [2] [2] 3 0 (Some ''g'')
      ex2_store) = Inr ()"
    using U [where E = ex4_env and ?s3.0 = t3 and atol = 3,
        THEN conjunct2, THEN conjunct2, THEN conjunct1, rule_format, OF h3]
    by (simp add: ex4_env_def ex2_env_def)
  define t4 where "t4 = snd (in_leak_scope (isolated_second_order_check ex4_leak_env ex_no_outputs
      [0] [] [2] [2] 3 0 (Some ''g'')) ex2_store)"
  have h4: "in_leak_scope (isolated_second_order_check ex4_leak_env ex_no_outputs [0] []
      [2] [2] 3 0 (Some ''g'')) ex2_store = (Inr (), t4)"
    by (simp add: t4_def evals)
  have c4: "fst (CheckDoubleBackwardComputation ex4_leak_env ex_no_outputs [0] [] [2] [2] 3 0
      (Some ''g'') ex2_store) = Inl (GradientCheckError (LeakReport ''1 array body is alive''))"
    using U [where E = ex4_leak_env and ?s3.0 = t4 and atol = 3,
        THEN conjunct2, THEN conjunct2, THEN conjunct1, rule_format, OF h4]
    by (simp add: ex4_leak_env_def)
  define t5 where "t5 = snd (in_leak_scope (CheckDoubleBackpropOption ex2_broken_env ex2_func [0]
      (GetArrayGraphId ex2_broken_env ex2_store 0 (Some ''g''))) ex2_store)"
  have h5: "in_leak_scope (CheckDoubleBackpropOption ex2_broken_env ex2_func [0]
      (GetArrayGraphId ex2_broken_env ex2_store 0 (Some ''g''))) ex2_store
      = (Inl (GradientCheckError (ToggleReport [ConnectedWhenDisabled 0 1 ''g''])), t5)"
    by (simp add: t5_def evals)
  have c5: "fst (CheckBackward ex2_broken_env ex2_func [0] [2] [2] 3 0 (Some ''g'') ex2_store)
     = Inl (GradientCheckError (ToggleReport [ConnectedWhenDisabled 0 1 ''g'']))"
    using T [where E = ex2_broken_env and ?s1.0 = t5 and atol = 3,
        THEN conjunct2, THEN conjunct2, THEN conjunct2, THEN conjunct1, rule_format, OF h5]
    by simp
  define u6 where "u6 = snd (in_leak_scope (CheckBackwardComputation ex2_env ex2_func [0] [2] [2]
      1 0 (Some ''g'')) t2)"
  have h6: "in_leak_scope (CheckDoubleBackpropOption ex2_env ex2_func [0]
      (GetArrayGraphId ex2_env ex2_store 0 (Some ''g''))) ex2_store = (Inr (), t2) \<and>
      fst (IsAllArrayBodiesFreed ex2_env t2) \<and>
      in_leak_scope (CheckBackwardComputation ex2_env ex2_func [0] [2] [2] 1 0 (Some ''g'')) t2
        = (Inl (GradientCheckError (NumericalError 1 [0] ''g'' 1 0)), u6)"
    by (simp add: u6_def t2_def evals)
  have c6: "fst (CheckBackward ex2_env ex2_func [0] [2] [2] 1 0 (Some ''g'') ex2_store)
     = Inl (GradientCheckError (NumericalError 1 [0] ''g'' 1 0))"
    using T [where E = ex2_env and ?s1.0 = t2 and ?s2.0 = u6 and atol = 1,
        THEN conjunct2, THEN conjunct2, THEN conjunct2, THEN conjunct2, THEN conjunct1,
        rule_format, OF h6]
    by simp
  define t7 where "t7 = snd (in_leak_scope (isolated_second_order_check ex4_env ex_no_outputs [0] []
      [2] [2] 1 0 (Some ''g'')) ex2_store)"
  have h7: "in_leak_scope (isolated_second_order_check ex4_env ex_no_outputs [0] []
      [2] [2] 1 0 (Some ''g'')) ex2_store
      = (Inl (GradientCheckError (DoubleNumericalError 1 [0] ''g'' 1 0)), t7)"
    by (simp add: t7_def evals)
  have c7: "fst (CheckDoubleBackwardComputation ex4_env ex_no_outputs [0] [] [2] [2] 1 0 (Some ''g'')
      ex2_store) = Inl (GradientCheckError (DoubleNumericalError 1 [0] ''g'' 1 0))"
    using U [where E = ex4_env and ?s3.0 = t7 and atol = 1,
        THEN conjunct2, THEN conjunct2, THEN conjunct2, THEN conjunct2, THEN conjunct2,
        THEN conjunct1, rule_format, OF h7]
    by simp
  show ?thesis using c1 c2 c3 c4 c5 c6 c7 by simp
qed

text \<open>
  Claim C7 as stated does not hold on the path where a check inside the scope raises.
  With the broken engine the toggle verification raises its report; the scope is closed,
  the tracker would report a survivor, and the error raised is the toggle report, not a
  leak report.
\<close>

theorem leak_error_skipped_when_check_raises:
  "fst (CheckBackward ex2_broken_leak_env ex2_func [0] [2] [] 1 0 (Some ''g'') ex2_store)
     = Inl (GradientCheckError (ToggleReport [ConnectedWhenDisabled 0 1 ''g''])) \<and>
   \<not> fst (IsAllArrayBodiesFreed ex2_broken_leak_env
           (snd (CheckBackward ex2_broken_leak_env ex2_func [0] [2] [] 1 0 (Some ''g'') ex2_store))) \<and>
   \<not> leak_scope (snd (CheckBackward ex2_broken_leak_env ex2_func [0] [2] [] 1 0 (Some ''g'') ex2_store))"
  by (simp add: CheckBackward_def check_defs ex2_defs comp_defs array_defs extraction_defs)

subsection \<open>Ending well\<close>



























end
